theory Spec2Isabelle
  imports Main "HOL-Library.Word" "HOL-Library.AList"
begin

unbundle bit_operations_syntax

section \<open>Python values shared by both modules\<close>

text \<open>
  Exceptions are values.  \<open>GNS3VMError\<close> and \<open>VPCSError\<close> are the two exception classes of
  the repository (their string is the message they were raised with); the others are the
  built-in exceptions that the modelled code can let escape.
\<close>

datatype exn =
    GNS3VMError string
  | VPCSError string
  | KeyError string
  | AttributeError string
  | IndexError
  | TypeError
  | OSError string
  | StructError
  | Exception string

text \<open>\<open>str\<close> of a Python integer, as \<open>"{}".format(n)\<close> prints it.\<close>

definition digit_char :: "nat \<Rightarrow> char" where
  "digit_char d = ''0123456789'' ! d"

function str_nat :: "nat \<Rightarrow> string" where
  "str_nat n = (if n < 10 then [digit_char n] else str_nat (n div 10) @ [digit_char (n mod 10)])"
  by pat_completeness auto
termination
  by (relation "measure id") auto

declare str_nat.simps [simp del]

definition str_int :: "int \<Rightarrow> string" where
  "str_int i = (if i < 0 then CHR ''-'' # str_nat (nat (- i)) else str_nat (nat i))"

section \<open>controller/gns3vm/hyperv\_gns3\_vm.py\<close>

subsection \<open>The WMI provider\<close>

text \<open>
  The module talks to Hyper-V through the \<open>wmi\<close> package, which is not part of the
  repository.  What the module reads from it is gathered in the record \<open>wmi\<close>: the answers
  of the queries it makes.  A job object is re-fetched on every poll, so
  \<open>get_wmi_obj w path n\<close> is what the \<open>n\<close>-th fetch (counted from 0) of the moniker
  \<open>path\<close> returns.
\<close>

record job =
  JobState :: int
  ErrorSummaryDescription :: string

record vm =
  ElementName :: string
  Caption :: string
  EnabledState :: int

record processor =
  Manufacturer :: string
  VirtualizationFirmwareEnabled :: bool

record wmi =
  platform :: string
  windowsversion_major :: int
  Win32_Processor :: "processor list"
  Win32_ComputerSystem :: "bool list"  \<comment> \<open>\<open>HypervisorPresent\<close> of each entry\<close>
  virtualization_v2 :: bool  \<comment> \<open>whether \<open>wmi.WMI(namespace=...)\<close> connects\<close>
  Msvm_VirtualSystemManagementService :: "nat list"
  Msvm_ComputerSystem :: "vm list"
  RequestStateChange :: "vm \<Rightarrow> int \<Rightarrow> string \<times> int"
  get_wmi_obj :: "string \<Rightarrow> nat \<Rightarrow> job"
  cpu_count :: int
  ModifyResourceSettings :: "vm \<Rightarrow> int \<Rightarrow> int \<Rightarrow> string option"
    \<comment> \<open>the text of the exception raised inside the \<open>try\<close> of \<open>_set_vcpus_ram\<close>, if any\<close>

abbreviation HYPERV_VM_STATE_ENABLED :: int where "HYPERV_VM_STATE_ENABLED \<equiv> 2"
abbreviation HYPERV_VM_STATE_DISABLED :: int where "HYPERV_VM_STATE_DISABLED \<equiv> 3"
abbreviation HYPERV_VM_STATE_PAUSED :: int where "HYPERV_VM_STATE_PAUSED \<equiv> 9"
abbreviation WMI_JOB_STATUS_STARTED :: int where "WMI_JOB_STATUS_STARTED \<equiv> 4096"
abbreviation WMI_JOB_STATE_RUNNING :: int where "WMI_JOB_STATE_RUNNING \<equiv> 4"
abbreviation WMI_JOB_STATE_COMPLETED :: int where "WMI_JOB_STATE_COMPLETED \<equiv> 7"

subsection \<open>The controller object\<close>

record hyperv =
  vmname :: string
  vcpus :: int
  ram :: int
  conn :: bool  \<comment> \<open>\<open>self._conn is not None\<close>\<close>
  vm_handle :: "vm option"  \<comment> \<open>\<open>self._vm\<close>\<close>
  management :: "nat option"  \<comment> \<open>\<open>self._management\<close>\<close>
  running :: bool

definition check_requirements :: "wmi \<Rightarrow> exn + unit" where
  "check_requirements w =
    (if \<not> (take 3 (platform w) = ''win'') \<or> windowsversion_major w < 10 then
       Inl (GNS3VMError ''Hyper-V nested virtualization is only supported on Windows 10 and Windows Server 2016 or later'')
     else case Win32_Processor w of
       [] \<Rightarrow> Inl IndexError
     | p # _ \<Rightarrow>
       if Manufacturer p \<noteq> ''GenuineIntel'' then
         Inl (GNS3VMError ''An Intel processor is required by Hyper-V to support nested virtualization'')
       else case Win32_ComputerSystem w of
         [] \<Rightarrow> Inl IndexError
       | present # _ \<Rightarrow>
         if \<not> present then Inl (GNS3VMError ''Hyper-V is not installed'')
         else if \<not> VirtualizationFirmwareEnabled p then
           Inl (GNS3VMError ''Nested Virtualization (VT-x) is not enabled on this system'')
         else Inr ())"

text \<open>
  \<open>_find_vm\<close>: the query \<open>Msvm_ComputerSystem(ElementName=vm_name)\<close> selects the virtual
  machines whose display name is \<open>vm_name\<close>.
\<close>

definition query_ElementName :: "wmi \<Rightarrow> string \<Rightarrow> vm list" where
  "query_ElementName w vm_name = filter (\<lambda>v. ElementName v = vm_name) (Msvm_ComputerSystem w)"

definition find_vm :: "wmi \<Rightarrow> string \<Rightarrow> exn + vm option" where
  "find_vm w vm_name =
    (let vms = query_ElementName w vm_name;
         nb_vms = length vms
     in if nb_vms = 0 then Inr None
        else if nb_vms > 1 then Inl (GNS3VMError (''Duplicate VM name found for '' @ vm_name))
        else Inr (Some (vms ! 0)))"

text \<open>
  \<open>_connect\<close> returns the exception it raised, if any, and the object as the exception
  left it: the attributes assigned before the \<open>raise\<close> keep their new values.
\<close>

definition connect :: "wmi \<Rightarrow> hyperv \<Rightarrow> (exn + unit) \<times> hyperv" where
  "connect w s =
    (case check_requirements w of
       Inl e \<Rightarrow> (Inl e, s)
     | Inr _ \<Rightarrow>
       let s1 = (if virtualization_v2 w then s\<lparr>conn := True\<rparr> else s) in
       if \<not> conn s1 then
         (Inl (AttributeError ''Msvm_VirtualSystemManagementService''), s1)
       else if Msvm_VirtualSystemManagementService w = [] then
         (Inl (GNS3VMError ''The Windows account running GNS3 does not have the required permissions for Hyper-V''), s1)
       else
         let s2 = s1\<lparr>management := Some (Msvm_VirtualSystemManagementService w ! 0)\<rparr> in
         case find_vm w (vmname s2) of
           Inl e \<Rightarrow> (Inl e, s2)
         | Inr h \<Rightarrow> (Inr (), s2\<lparr>vm_handle := h\<rparr>))"

definition is_running :: "hyperv \<Rightarrow> bool" where
  "is_running s =
    (case vm_handle s of
       None \<Rightarrow> False
     | Some v \<Rightarrow> EnabledState v = HYPERV_VM_STATE_ENABLED)"

definition set_vcpus_ram :: "wmi \<Rightarrow> hyperv \<Rightarrow> int \<Rightarrow> int \<Rightarrow> exn + unit" where
  "set_vcpus_ram w s n_vcpus n_ram =
    (let available_vcpus = cpu_count w in
     if n_vcpus > available_vcpus then
       Inl (GNS3VMError (''You have allocated too many vCPUs for the GNS3 VM! (max available is ''
                          @ str_int available_vcpus @ '' vCPUs)''))
     else
       let failure = (case vm_handle s of
                        None \<Rightarrow> Some ''NoneType object has no attribute associators''
                      | Some v \<Rightarrow> ModifyResourceSettings w v n_vcpus n_ram)
       in case failure of
            Some e \<Rightarrow> Inl (GNS3VMError (''Could not set to '' @ str_int n_vcpus
                                         @ '' and RAM amount set to '' @ str_int n_ram @ '': '' @ e))
          | None \<Rightarrow> Inr ())"

text \<open>
  The polling loop of \<open>_set_state\<close>.  \<open>wait_job fetch n ms\<close> is the loop entered with
  \<open>job\<close> holding the result of fetch number \<open>n\<close>, after \<open>ms\<close> milliseconds of sleep; it
  returns the job that ended the loop, the number of fetches made and the time slept.  The
  source has no bound on the loop, so the function is partial: \<open>None\<close> is a loop that never
  ends.
\<close>

partial_function (option) wait_job :: "(nat \<Rightarrow> job) \<Rightarrow> nat \<Rightarrow> nat \<Rightarrow> (job \<times> nat \<times> nat) option" where
  "wait_job fetch n ms =
    (if JobState (fetch n) = WMI_JOB_STATE_RUNNING then wait_job fetch (Suc n) (ms + 100)
     else Some (fetch n, Suc n, ms))"

text \<open>
  \<open>_set_state\<close> returns the exception raised (or \<open>Inr ()\<close>), the number of times the job
  object was fetched and the milliseconds slept between fetches.
\<close>

definition set_state :: "wmi \<Rightarrow> hyperv \<Rightarrow> int \<Rightarrow> ((exn + unit) \<times> nat \<times> nat) option" where
  "set_state w s state =
    (case vm_handle s of
       None \<Rightarrow> Some (Inl (AttributeError ''RequestStateChange''), 0, 0)
     | Some v \<Rightarrow>
       (case RequestStateChange w v state of (job_path, ret) \<Rightarrow>
          if ret = WMI_JOB_STATUS_STARTED then
            (case wait_job (get_wmi_obj w job_path) 0 0 of
               None \<Rightarrow> None
             | Some (job, fetches, ms) \<Rightarrow>
               if JobState job \<noteq> WMI_JOB_STATE_COMPLETED then
                 Some (Inl (GNS3VMError (''Error while changing state: '' @ ErrorSummaryDescription job)),
                       fetches, ms)
               else Some (Inr (), fetches, ms))
          else if ret \<noteq> 0 \<or> ret \<noteq> 32775 then
            Some (Inl (GNS3VMError (''Failed to change state to '' @ str_int state)), 0, 0)
          else Some (Inr (), 0, 0)))"

text \<open>\<open>str(e)\<close> of the exceptions that carry a message.\<close>

fun str_exn :: "exn \<Rightarrow> string" where
  "str_exn (GNS3VMError m) = m"
| "str_exn (VPCSError m) = m"
| "str_exn (KeyError m) = m"
| "str_exn (AttributeError m) = m"
| "str_exn IndexError = ''list index out of range''"
| "str_exn TypeError = ''''"
| "str_exn (OSError m) = m"
| "str_exn StructError = ''unpack requires a buffer of 20 bytes''"
| "str_exn (Exception m) = m"

text \<open>
  \<open>_set_state\<close> inside \<open>try ... except GNS3VMError as e: raise GNS3VMError(prefix + str(e))\<close>,
  the frame shared by \<open>start\<close>, \<open>suspend\<close> and \<open>stop\<close>.  Any other exception passes
  through.
\<close>

definition guarded_set_state :: "wmi \<Rightarrow> hyperv \<Rightarrow> int \<Rightarrow> string \<Rightarrow> (exn + unit) option" where
  "guarded_set_state w s state prefix =
    (case set_state w s state of
       None \<Rightarrow> None
     | Some (Inl (GNS3VMError m), _) \<Rightarrow> Some (Inl (GNS3VMError (prefix @ m)))
     | Some (r, _) \<Rightarrow> Some r)"

definition start :: "wmi \<Rightarrow> hyperv \<Rightarrow> ((exn + unit) \<times> hyperv) option" where
  "start w s =
    (case (if \<not> conn s then connect w s else (Inr (), s)) of
       (Inl e, s1) \<Rightarrow> Some (Inl e, s1)
     | (Inr _, s1) \<Rightarrow>
       if \<not> is_running s1 then
         (case set_vcpus_ram w s1 (vcpus s1) (ram s1) of
            Inl e \<Rightarrow> Some (Inl e, s1)
          | Inr _ \<Rightarrow>
            (case guarded_set_state w s1 HYPERV_VM_STATE_ENABLED ''Failed to start the GNS3 VM: '' of
               None \<Rightarrow> None
             | Some (Inl e) \<Rightarrow> Some (Inl e, s1)
             | Some (Inr _) \<Rightarrow> Some (Inr (), s1\<lparr>running := True\<rparr>)))
       else Some (Inr (), s1\<lparr>running := True\<rparr>))"

definition suspend :: "wmi \<Rightarrow> hyperv \<Rightarrow> ((exn + unit) \<times> hyperv) option" where
  "suspend w s =
    (case (if \<not> conn s then connect w s else (Inr (), s)) of
       (Inl e, s1) \<Rightarrow> Some (Inl e, s1)
     | (Inr _, s1) \<Rightarrow>
       (case guarded_set_state w s1 HYPERV_VM_STATE_PAUSED ''Failed to suspend the GNS3 VM: '' of
          None \<Rightarrow> None
        | Some (Inl e) \<Rightarrow> Some (Inl e, s1)
        | Some (Inr _) \<Rightarrow> Some (Inr (), s1\<lparr>running := False\<rparr>)))"

definition stop :: "wmi \<Rightarrow> hyperv \<Rightarrow> ((exn + unit) \<times> hyperv) option" where
  "stop w s =
    (case (if \<not> conn s then connect w s else (Inr (), s)) of
       (Inl e, s1) \<Rightarrow> Some (Inl e, s1)
     | (Inr _, s1) \<Rightarrow>
       (case guarded_set_state w s1 HYPERV_VM_STATE_DISABLED ''Failed to stop the GNS3 VM: '' of
          None \<Rightarrow> None
        | Some (Inl e) \<Rightarrow> Some (Inl e, s1)
        | Some (Inr _) \<Rightarrow> Some (Inr (), s1\<lparr>running := False\<rparr>)))"


section \<open>modules/vpcs/\_\_init\_\_.py\<close>

subsection \<open>Requests and replies\<close>

text \<open>
  A request is a JSON object, a Python \<open>dict\<close>: an association list with the keys in the
  order the \<open>dict\<close> iterates them.  \<open>request[key]\<close> raises \<open>KeyError\<close> on a missing key,
  \<open>d[key] = v\<close> overwrites in place or appends.
\<close>

datatype json = JNull | JBool bool | JInt int | JStr string | JObj "(string \<times> json) list"

type_synonym dict = "(string \<times> json) list"

definition getitem :: "dict \<Rightarrow> string \<Rightarrow> exn + json" where
  "getitem d k = (case map_of d k of None \<Rightarrow> Inl (KeyError k) | Some v \<Rightarrow> Inr v)"

definition contains :: "dict \<Rightarrow> string \<Rightarrow> bool" where
  "contains d k = (map_of d k \<noteq> None)"

fun truthy :: "json \<Rightarrow> bool" where
  "truthy JNull = False"
| "truthy (JBool b) = b"
| "truthy (JInt i) = (i \<noteq> 0)"
| "truthy (JStr s) = (s \<noteq> [])"
| "truthy (JObj kvs) = (kvs \<noteq> [])"

text \<open>
  \<open>"{}".format(v)\<close>: a string prints as it is, and inside a \<open>dict\<close> in quotes (the escapes
  of \<open>repr\<close> are left out).
\<close>

fun intersperse :: "string \<Rightarrow> string list \<Rightarrow> string" where
  "intersperse sep [] = []"
| "intersperse sep [x] = x"
| "intersperse sep (x # y # ys) = x @ sep @ intersperse sep (y # ys)"

fun py_repr :: "json \<Rightarrow> string" where
  "py_repr JNull = ''None''"
| "py_repr (JBool b) = (if b then ''True'' else ''False'')"
| "py_repr (JInt i) = str_int i"
| "py_repr (JStr s) = [CHR 0x27] @ s @ [CHR 0x27]"
| "py_repr (JObj kvs) =
     ''{'' @ intersperse '', '' (map (\<lambda>(k, v). [CHR 0x27] @ k @ [CHR 0x27] @ '': '' @ py_repr v) kvs) @ ''}''"

definition py_str :: "json \<Rightarrow> string" where
  "py_str v = (case v of JStr s \<Rightarrow> s | _ \<Rightarrow> py_repr v)"

text \<open>
  What a handler does with the request: one reply at most.  \<open>Invalid\<close> is the early return
  after \<open>validate_request\<close> refused the request, \<open>Nothing\<close> a return without a reply, and
  \<open>Raised e\<close> an exception that no handler of the module catches.
\<close>

datatype outcome =
    Response json
  | CustomError string
  | ParamError
  | Invalid
  | Nothing
  | Raised exn

datatype schema =
    VPCS_CREATE_SCHEMA | VPCS_DELETE_SCHEMA | VPCS_UPDATE_SCHEMA | VPCS_START_SCHEMA
  | VPCS_STOP_SCHEMA | VPCS_RELOAD_SCHEMA | VPCS_ALLOCATE_UDP_PORT_SCHEMA
  | VPCS_ADD_NIO_SCHEMA | VPCS_DELETE_NIO_SCHEMA

datatype socket_type = TCP | UDP

datatype nio = NIO_UDP json json json | NIO_TAP json

datatype makedirs_result = Created | FileExistsError | MakedirsOSError string

subsection \<open>Collaborators\<close>

text \<open>
  The module works on two kinds of things that it does not define: the world outside the
  module object (\<open>'w\<close>: the file system, the sockets, the process' user, and the class-level
  state of \<open>VPCSDevice\<close>) and the device objects (\<open>'d\<close>, class \<open>VPCSDevice\<close> of
  \<open>vpcs_device.py\<close>, which is not among the sources).  Every call the module makes on them
  is a field of the record below: it takes the world or the device as found and returns it
  as left, together with the exception raised, if any.

  For a device, \<open>hasattr d name\<close> is Python's \<open>hasattr\<close>, \<open>attr_ne d name v\<close> is
  \<open>getattr(d, name) != v\<close> and \<open>setattr d name v\<close> is the assignment \<open>d.name = v\<close>
  through the setter of the class.
\<close>

record ('d, 'w) env =
  validate_request :: "dict \<Rightarrow> schema \<Rightarrow> bool"
  geteuid :: "'w \<Rightarrow> nat"
  listxattr :: "'w \<Rightarrow> json \<Rightarrow> exn + string list"
  getxattr :: "'w \<Rightarrow> json \<Rightarrow> string \<Rightarrow> exn + 8 word list"
  makedirs :: "'w \<Rightarrow> string \<Rightarrow> makedirs_result \<times> 'w"
  isdir :: "'w \<Rightarrow> string \<Rightarrow> bool"
  move :: "'w \<Rightarrow> string \<Rightarrow> string \<Rightarrow> string option \<times> 'w"
  write_file :: "'w \<Rightarrow> string \<Rightarrow> string \<Rightarrow> string option \<times> 'w"
  port_in_use :: "'w \<Rightarrow> socket_type \<Rightarrow> string \<Rightarrow> int \<Rightarrow> bool"
  decodestring :: "string \<Rightarrow> exn + string"
  VPCSDevice :: "'w \<Rightarrow> json \<Rightarrow> string \<Rightarrow> string \<Rightarrow> json \<Rightarrow> (exn + 'd) \<times> 'w"
  VPCSDevice_reset :: "'w \<Rightarrow> 'w"
  dev_id :: "'d \<Rightarrow> int"
  dev_name :: "'d \<Rightarrow> json"
  dev_working_dir :: "'d \<Rightarrow> json"
  dev_defaults :: "'d \<Rightarrow> dict"
  hasattr :: "'d \<Rightarrow> string \<Rightarrow> bool"
  attr_ne :: "'d \<Rightarrow> string \<Rightarrow> json \<Rightarrow> bool"
  setattr :: "'d \<Rightarrow> string \<Rightarrow> json \<Rightarrow> exn + 'd"
  dev_command :: "'d \<Rightarrow> exn + string"
  dev_is_running :: "'d \<Rightarrow> 'w \<Rightarrow> bool"
  dev_start :: "'d \<Rightarrow> 'w \<Rightarrow> exn option \<times> 'd \<times> 'w"
  dev_stop :: "'d \<Rightarrow> 'w \<Rightarrow> exn option \<times> 'd \<times> 'w"
  dev_delete :: "'d \<Rightarrow> 'w \<Rightarrow> exn option \<times> 'd \<times> 'w"
  slot_add_nio_binding :: "'d \<Rightarrow> json \<Rightarrow> json \<Rightarrow> nio \<Rightarrow> exn + 'd"
  slot_remove_nio_binding :: "'d \<Rightarrow> json \<Rightarrow> json \<Rightarrow> exn + 'd"

text \<open>
  Modelled from the spec: \<open>find_unused_port\<close> of \<open>gns3server/modules/attic.py\<close>, which is
  not among the sources.  The spec (4.1) has it scan "candidate ports from the current cursor
  to end", each pool being a "(start, end) inclusive range", a port being eligible only if
  "not currently bound by the operating system (probed by attempting to bind/listen and
  releasing immediately)", and has it fail "if no eligible port exists".  The callers pass the
  bounds, the host and the socket type and nothing else, so the probe of the operating
  system is the only test the function can make.  The text of the exception is not
  specified.
\<close>

definition find_unused_port :: "('d, 'w) env \<Rightarrow> 'w \<Rightarrow> int \<Rightarrow> int \<Rightarrow> string \<Rightarrow> socket_type \<Rightarrow> exn + int" where
  "find_unused_port E w start_port end_port host_name st =
    (case filter (\<lambda>p. \<not> port_in_use E w st host_name p) [start_port..end_port] of
       [] \<Rightarrow> Inl (Exception (''Could not find an unused port between '' @ str_int start_port
                              @ '' and '' @ str_int end_port))
     | p # _ \<Rightarrow> Inr p)"

text \<open>\<open>os.path.join\<close> of two components and \<open>os.path.basename\<close>, on POSIX paths.\<close>

definition path_join :: "string \<Rightarrow> string \<Rightarrow> string" where
  "path_join a b =
    (if take 1 b = ''/'' then b
     else if a = [] \<or> last a = CHR ''/'' then a @ b
     else a @ ''/'' @ b)"

definition basename :: "string \<Rightarrow> string" where
  "basename p = rev (takeWhile (\<lambda>c. c \<noteq> CHR ''/'') (rev p))"

text \<open>\<open>s.replace(old, new)\<close> for a non-empty \<open>old\<close>.\<close>

function replace :: "string \<Rightarrow> string \<Rightarrow> string \<Rightarrow> string" where
  "replace old new s =
    (if s = [] \<or> old = [] then s
     else if take (length old) s = old then new @ replace old new (drop (length old) s)
     else hd s # replace old new (tl s))"
  by pat_completeness auto
termination
  by (relation "measure (\<lambda>(old, new, s). length s)") auto

declare replace.simps [simp del]

subsection \<open>The module object\<close>

text \<open>
  The attributes of the \<open>VPCS\<close> object that its handlers read or write.  The instances are
  kept in the order of insertion, under their integer identifiers.  The port ranges and the
  working directory are integers and a string: a \<open>VPCS.settings\<close> request that carries
  another kind of value there is answered with \<open>TypeError\<close> at once, where Python would
  raise it at the first comparison or path operation that meets the value.
\<close>

record 'd vpcs =
  VPCS_path :: json  \<comment> \<open>\<open>self._VPCS\<close>, \<open>JNull\<close> when no binary was found\<close>
  VPCS_instances :: "(int \<times> 'd) list"
  console_start_port_range :: int
  console_end_port_range :: int
  allocated_console_ports :: "int list"
  current_console_port :: int
  udp_start_port_range :: int
  udp_end_port_range :: int
  current_udp_port :: int
  host :: string
  projects_dir :: string
  tempdir :: string
  working_dir :: string
  VPCSrc :: string
  remote_server :: "bool option"  \<comment> \<open>set by \<open>reset\<close> only\<close>

text \<open>
  \<open>__init__\<close>, after the search for the binary (whose result is \<open>found\<close>) and the
  registration of the periodic callback.
\<close>

definition init :: "json \<Rightarrow> string \<Rightarrow> string \<Rightarrow> string \<Rightarrow> 'd vpcs" where
  "init found host_name projects temp =
    \<lparr>VPCS_path = found,
     VPCS_instances = [],
     console_start_port_range = 4001,
     console_end_port_range = 4512,
     allocated_console_ports = [],
     current_console_port = 4001,
     udp_start_port_range = 30001,
     udp_end_port_range = 40001,
     current_udp_port = 30001,
     host = host_name,
     projects_dir = projects,
     tempdir = temp,
     working_dir = projects,
     VPCSrc = '''',
     remote_server = None\<rparr>"

text \<open>
  The key a request value selects in \<open>self._VPCS_instances\<close>, whose keys are integers: a
  Boolean hashes and compares as 0 or 1, a \<open>dict\<close> cannot be hashed, and nothing else equals
  an integer.
\<close>

fun instance_key :: "json \<Rightarrow> exn + int option" where
  "instance_key (JInt i) = Inr (Some i)"
| "instance_key (JBool b) = Inr (Some (if b then 1 else 0))"
| "instance_key (JObj kvs) = Inl TypeError"
| "instance_key v = Inr None"

text \<open>
  \<open>get_VPCS_instance\<close>: the instance and the key it is stored under, or the outcome that
  ends the calling handler (the custom error sent for an unknown identifier).
\<close>

definition get_VPCS_instance :: "'d vpcs \<Rightarrow> json \<Rightarrow> outcome + (int \<times> 'd)" where
  "get_VPCS_instance s VPCS_id =
    (case instance_key VPCS_id of
       Inl e \<Rightarrow> Inl (Raised e)
     | Inr k \<Rightarrow>
       (case (case k of None \<Rightarrow> None | Some i \<Rightarrow> map_option (Pair i) (map_of (VPCS_instances s) i)) of
          None \<Rightarrow> Inl (CustomError (''VPCS device ID '' @ py_str VPCS_id @ '' doesn't exist''))
        | Some kd \<Rightarrow> Inr kd))"

text \<open>
  The opening of every handler that works on one instance: "validate the request", then
  "get the instance" under \<open>request["id"]\<close>; \<open>body\<close> is the rest of the handler.  A device
  object is mutated in place, which \<open>store\<close> writes back into the dictionary.
\<close>

definition on_instance ::
  "('d, 'w) env \<Rightarrow> schema \<Rightarrow> dict \<Rightarrow> 'd vpcs \<Rightarrow> 'w \<Rightarrow> (int \<Rightarrow> 'd \<Rightarrow> outcome \<times> 'd vpcs \<times> 'w)
   \<Rightarrow> outcome \<times> 'd vpcs \<times> 'w" where
  "on_instance E sch request s w body =
    (if \<not> validate_request E request sch then (Invalid, s, w)
     else case getitem request ''id'' of
       Inl e \<Rightarrow> (Raised e, s, w)
     | Inr VPCS_id \<Rightarrow>
       (case get_VPCS_instance s VPCS_id of
          Inl out \<Rightarrow> (out, s, w)
        | Inr (k, d) \<Rightarrow> body k d))"

definition store :: "int \<Rightarrow> 'd \<Rightarrow> 'd vpcs \<Rightarrow> 'd vpcs" where
  "store k d s = s\<lparr>VPCS_instances := AList.update k d (VPCS_instances s)\<rparr>"

text \<open>
  How a handler ends when a call inside its \<open>try ... except VPCSError\<close> raises:
  \<open>send_custom_error(str(e))\<close> for a \<open>VPCSError\<close>, the exception itself otherwise.
\<close>

definition caught :: "exn \<Rightarrow> outcome" where
  "caught e = (case e of VPCSError m \<Rightarrow> CustomError m | _ \<Rightarrow> Raised e)"


subsection \<open>reset and settings\<close>

text \<open>
  The loop "delete all VPCS instances" of \<open>reset\<close>: an exception ends it, with the
  instances visited so far as \<open>delete\<close> left them.
\<close>

fun delete_all :: "('d, 'w) env \<Rightarrow> (int \<times> 'd) list \<Rightarrow> 'w \<Rightarrow> exn option \<times> (int \<times> 'd) list \<times> 'w" where
  "delete_all E [] w = (None, [], w)"
| "delete_all E ((k, d) # rest) w =
    (case dev_delete E d w of
       (Some e, d1, w1) \<Rightarrow> (Some e, (k, d1) # rest, w1)
     | (None, d1, w1) \<Rightarrow>
       (case delete_all E rest w1 of (r, rest1, w2) \<Rightarrow> (r, (k, d1) # rest1, w2)))"

definition reset :: "('d, 'w) env \<Rightarrow> dict \<Rightarrow> 'd vpcs \<Rightarrow> 'w \<Rightarrow> outcome \<times> 'd vpcs \<times> 'w" where
  "reset E request s w =
    (case delete_all E (VPCS_instances s) w of
       (Some e, insts, w1) \<Rightarrow> (Raised e, s\<lparr>VPCS_instances := insts\<rparr>, w1)
     | (None, insts, w1) \<Rightarrow>
       (Nothing,
        s\<lparr>VPCS_instances := [],
          remote_server := Some False,
          current_console_port := console_start_port_range s,
          current_udp_port := udp_start_port_range s\<rparr>,
        VPCSDevice_reset E w1))"

text \<open>
  The loop of \<open>settings\<close> that hands the new working directory to every instance.
\<close>

fun set_working_dirs :: "('d, 'w) env \<Rightarrow> string \<Rightarrow> (int \<times> 'd) list \<Rightarrow> exn option \<times> (int \<times> 'd) list" where
  "set_working_dirs E dir [] = (None, [])"
| "set_working_dirs E dir ((k, d) # rest) =
    (case setattr E d ''working_dir'' (JStr dir) of
       Inl e \<Rightarrow> (Some e, (k, d) # rest)
     | Inr d1 \<Rightarrow> (case set_working_dirs E dir rest of (r, rest1) \<Rightarrow> (r, (k, d1) # rest1)))"

text \<open>
  The first half of \<open>settings\<close>, up to the value of \<open>new_working_dir\<close>: \<open>Inl\<close> is the
  outcome of a handler that ends there (an exception, or the \<open>return\<close> after a failed move).
\<close>

definition new_working_dir :: "('d, 'w) env \<Rightarrow> dict \<Rightarrow> 'd vpcs \<Rightarrow> 'w \<Rightarrow> (outcome + string) \<times> 'w" where
  "new_working_dir E request s w =
    (if contains request ''working_dir'' then
       (case getitem request ''working_dir'' of
          Inr (JStr dir) \<Rightarrow> (Inr dir, w)
        | Inr _ \<Rightarrow> (Inl (Raised TypeError), w)
        | Inl e \<Rightarrow> (Inl (Raised e), w))
     else
       (case getitem request ''project_name'' of
          Inl e \<Rightarrow> (Inl (Raised e), w)
        | Inr (JStr project_name) \<Rightarrow>
          let dir = path_join (projects_dir s) (project_name @ ''.gns3'') in
          if projects_dir s \<noteq> working_dir s \<and> working_dir s \<noteq> dir then
            if \<not> isdir E w dir then
              (case move E w (working_dir s) dir of
                 (Some e, w1) \<Rightarrow> (Inl Nothing, w1)
               | (None, w1) \<Rightarrow> (Inr dir, w1))
            else (Inr dir, w)
          else (Inr dir, w)
        | Inr _ \<Rightarrow> (Inl (Raised TypeError), w)))"

text \<open>The two assignments of a port range, from the values of the request.\<close>

definition port_range :: "dict \<Rightarrow> string \<Rightarrow> string \<Rightarrow> exn + (int \<times> int) option" where
  "port_range request start_key end_key =
    (if contains request start_key \<and> contains request end_key then
       (case (getitem request start_key, getitem request end_key) of
          (Inr (JInt a), Inr (JInt b)) \<Rightarrow> Inr (Some (a, b))
        | _ \<Rightarrow> Inl TypeError)
     else Inr None)"

definition settings :: "('d, 'w) env \<Rightarrow> dict option \<Rightarrow> 'd vpcs \<Rightarrow> 'w \<Rightarrow> outcome \<times> 'd vpcs \<times> 'w" where
  "settings E req s w =
    (case req of
       None \<Rightarrow> (ParamError, s, w)
     | Some request \<Rightarrow>
       let s1 = (case map_of request ''VPCS'' of
                   Some v \<Rightarrow> if truthy v then s\<lparr>VPCS_path := v\<rparr> else s
                 | None \<Rightarrow> s)
       in case new_working_dir E request s1 w of
            (Inl out, w1) \<Rightarrow> (out, s1, w1)
          | (Inr dir, w1) \<Rightarrow>
            (case (if working_dir s1 \<noteq> dir
                   then (case set_working_dirs E dir (VPCS_instances s1) of
                           (r, insts) \<Rightarrow> (r, s1\<lparr>working_dir := dir, VPCS_instances := insts\<rparr>))
                   else (None, s1)) of
               (Some e, s2) \<Rightarrow> (Raised e, s2, w1)
             | (None, s2) \<Rightarrow>
               (case port_range request ''console_start_port_range'' ''console_end_port_range'' of
                  Inl e \<Rightarrow> (Raised e, s2, w1)
                | Inr console \<Rightarrow>
                  let s3 = (case console of
                              Some (a, b) \<Rightarrow> s2\<lparr>console_start_port_range := a, console_end_port_range := b\<rparr>
                            | None \<Rightarrow> s2)
                  in case port_range request ''udp_start_port_range'' ''udp_end_port_range'' of
                       Inl e \<Rightarrow> (Raised e, s3, w1)
                     | Inr udp \<Rightarrow>
                       (Nothing,
                        (case udp of
                           Some (a, b) \<Rightarrow> s3\<lparr>udp_start_port_range := a, udp_end_port_range := b\<rparr>
                         | None \<Rightarrow> s3),
                        w1))))"

subsection \<open>VPCS.create\<close>

text \<open>
  The block "find a console port" of \<open>VPCS_create\<close>, from the test of the cursor to its
  increment.  The port found is assigned to \<open>VPCS_instance.console\<close> inside the same
  \<open>try\<close>, whose handler turns any exception into a \<open>VPCSError\<close> with the same text.
\<close>

definition console_port :: "('d, 'w) env \<Rightarrow> 'd \<Rightarrow> 'd vpcs \<Rightarrow> 'w \<Rightarrow> (exn + int \<times> 'd) \<times> 'd vpcs" where
  "console_port E d s w =
    (let s1 = (if current_console_port s > console_end_port_range s
               then s\<lparr>current_console_port := console_start_port_range s\<rparr> else s)
     in case find_unused_port E w (current_console_port s1) (console_end_port_range s1) (host s1) TCP of
          Inl e \<Rightarrow> (Inl (VPCSError (str_exn e)), s1)
        | Inr port \<Rightarrow>
          (case setattr E d ''console'' (JInt port) of
             Inl e \<Rightarrow> (Inl (VPCSError (str_exn e)), s1)
           | Inr d1 \<Rightarrow> (Inr (port, d1), s1\<lparr>current_console_port := current_console_port s1 + 1\<rparr>)))"

text \<open>\<open>response.update(defaults)\<close>.\<close>

definition dict_update :: "dict \<Rightarrow> dict \<Rightarrow> dict" where
  "dict_update response other = fold (\<lambda>(k, v). AList.update k v) other response"

definition VPCS_create :: "('d, 'w) env \<Rightarrow> dict \<Rightarrow> 'd vpcs \<Rightarrow> 'w \<Rightarrow> outcome \<times> 'd vpcs \<times> 'w" where
  "VPCS_create E request s w =
    (if \<not> validate_request E request VPCS_CREATE_SCHEMA then (Invalid, s, w)
     else
       let name = (case map_of request ''name'' of None \<Rightarrow> JNull | Some v \<Rightarrow> v) in
       case getitem request ''path'' of
         Inl e \<Rightarrow> (Raised e, s, w)
       | Inr path \<Rightarrow>
         (case makedirs E w (working_dir s) of
            (MakedirsOSError e, w1) \<Rightarrow> (CustomError (''Could not create working directory '' @ e), s, w1)
          | (_, w1) \<Rightarrow>
            (case VPCSDevice E w1 path (working_dir s) (host s) name of
               (Inl e, w2) \<Rightarrow> (caught e, s, w2)
             | (Inr d, w2) \<Rightarrow>
               (case console_port E d s w2 of
                  (Inl e, s1) \<Rightarrow> (caught e, s1, w2)
                | (Inr (port, d1), s1) \<Rightarrow>
                  let response = dict_update [(''name'', dev_name E d1), (''id'', JInt (dev_id E d1))]
                                             (dev_defaults E d1)
                  in (Response (JObj response), store (dev_id E d1) d1 s1, w2)))))"

subsection \<open>VPCS.delete and VPCS.update\<close>

definition VPCS_delete :: "('d, 'w) env \<Rightarrow> dict \<Rightarrow> 'd vpcs \<Rightarrow> 'w \<Rightarrow> outcome \<times> 'd vpcs \<times> 'w" where
  "VPCS_delete E request s w =
    on_instance E VPCS_DELETE_SCHEMA request s w (\<lambda>k d.
      case dev_delete E d w of
        (Some e, d1, w1) \<Rightarrow> (caught e, store k d1 s, w1)
      | (None, d1, w1) \<Rightarrow>
        (Response (JBool True), s\<lparr>VPCS_instances := AList.delete k (VPCS_instances s)\<rparr>, w1))"

text \<open>
  "a new startup-config has been pushed": the first \<open>try\<close> of \<open>VPCS_update\<close>, which
  returns the request with the name of the file written under \<open>startup_config\<close>.
\<close>

definition push_startup_config ::
  "('d, 'w) env \<Rightarrow> dict \<Rightarrow> 'd \<Rightarrow> 'w \<Rightarrow> (outcome + dict) \<times> 'w" where
  "push_startup_config E request d w =
    (case map_of request ''startup_config_base64'' of
       None \<Rightarrow> (Inr request, w)
     | Some (JStr b64) \<Rightarrow>
       (case decodestring E b64 of
          Inl e \<Rightarrow> (Inl (Raised e), w)
        | Inr decoded \<Rightarrow>
          (case (dev_name E d, dev_working_dir E d) of
             (JStr name, JStr dir) \<Rightarrow>
               let config = replace ''%h'' name ([CHR ''!'', CHR 0x0A] @ replace [CHR 0x0D] [] decoded);
                   config_path = path_join dir ''startup-config''
               in (case write_file E w config_path config of
                     (Some e, w1) \<Rightarrow>
                       (Inl (CustomError (''Could not save the configuration '' @ config_path @ '': '' @ e)), w1)
                   | (None, w1) \<Rightarrow>
                       (Inr (AList.update ''startup_config'' (JStr (basename config_path)) request), w1))
           | _ \<Rightarrow> (Inl (Raised TypeError), w)))
     | Some _ \<Rightarrow> (Inl (Raised (AttributeError ''encode'')), w))"

text \<open>
  "update the VPCS settings": the loop over \<open>request.items()\<close>, with the response built so
  far.  It returns the device as the loop left it, also when a setter raised.
\<close>

fun update_settings :: "('d, 'w) env \<Rightarrow> 'd \<Rightarrow> dict \<Rightarrow> dict \<Rightarrow> (exn + dict) \<times> 'd" where
  "update_settings E d [] response = (Inr response, d)"
| "update_settings E d ((name, v) # rest) response =
    (if hasattr E d name \<and> attr_ne E d name v then
       (case setattr E d name v of
          Inl e \<Rightarrow> (Inl e, d)
        | Inr d1 \<Rightarrow> update_settings E d1 rest (AList.update name v response))
     else update_settings E d rest response)"

definition VPCS_update :: "('d, 'w) env \<Rightarrow> dict \<Rightarrow> 'd vpcs \<Rightarrow> 'w \<Rightarrow> outcome \<times> 'd vpcs \<times> 'w" where
  "VPCS_update E request s w =
    on_instance E VPCS_UPDATE_SCHEMA request s w (\<lambda>k d.
      case push_startup_config E request d w of
        (Inl out, w1) \<Rightarrow> (out, s, w1)
      | (Inr request1, w1) \<Rightarrow>
        (case update_settings E d request1 [] of
           (Inl e, d1) \<Rightarrow> (caught e, store k d1 s, w1)
         | (Inr response, d1) \<Rightarrow> (Response (JObj response), store k d1 s, w1)))"

subsection \<open>VPCS.start, VPCS.stop and VPCS.reload\<close>

definition vm_start :: "('d, 'w) env \<Rightarrow> dict \<Rightarrow> 'd vpcs \<Rightarrow> 'w \<Rightarrow> outcome \<times> 'd vpcs \<times> 'w" where
  "vm_start E request s w =
    on_instance E VPCS_START_SCHEMA request s w (\<lambda>k d.
      case dev_command E d of
        Inl e \<Rightarrow> (caught e, s, w)
      | Inr _ \<Rightarrow>
        (case setattr E d ''VPCS'' (VPCS_path s) of
           Inl e \<Rightarrow> (caught e, s, w)
         | Inr d1 \<Rightarrow>
           (case setattr E d1 ''VPCSrc'' (JStr (VPCSrc s)) of
              Inl e \<Rightarrow> (caught e, store k d1 s, w)
            | Inr d2 \<Rightarrow>
              (case dev_start E d2 w of
                 (Some e, d3, w1) \<Rightarrow> (caught e, store k d3 s, w1)
               | (None, d3, w1) \<Rightarrow> (Response (JBool True), store k d3 s, w1)))))"

definition vm_stop :: "('d, 'w) env \<Rightarrow> dict \<Rightarrow> 'd vpcs \<Rightarrow> 'w \<Rightarrow> outcome \<times> 'd vpcs \<times> 'w" where
  "vm_stop E request s w =
    on_instance E VPCS_STOP_SCHEMA request s w (\<lambda>k d.
      case dev_stop E d w of
        (Some e, d1, w1) \<Rightarrow> (caught e, store k d1 s, w1)
      | (None, d1, w1) \<Rightarrow> (Response (JBool True), store k d1 s, w1))"

definition vm_reload :: "('d, 'w) env \<Rightarrow> dict \<Rightarrow> 'd vpcs \<Rightarrow> 'w \<Rightarrow> outcome \<times> 'd vpcs \<times> 'w" where
  "vm_reload E request s w =
    on_instance E VPCS_RELOAD_SCHEMA request s w (\<lambda>k d.
      case (if dev_is_running E d w then dev_stop E d w else (None, d, w)) of
        (Some e, d1, w1) \<Rightarrow> (caught e, store k d1 s, w1)
      | (None, d1, w1) \<Rightarrow>
        (case dev_start E d1 w1 of
           (Some e, d2, w2) \<Rightarrow> (caught e, store k d2 s, w2)
         | (None, d2, w2) \<Rightarrow> (Response (JBool True), store k d2 s, w2)))"

subsection \<open>VPCS.allocate\_udp\_port\<close>

text \<open>The block "find a UDP port" of \<open>allocate_udp_port\<close>.\<close>

definition udp_port :: "('d, 'w) env \<Rightarrow> 'd vpcs \<Rightarrow> 'w \<Rightarrow> (exn + int) \<times> 'd vpcs" where
  "udp_port E s w =
    (let s1 = (if current_udp_port s \<ge> udp_end_port_range s
               then s\<lparr>current_udp_port := udp_start_port_range s\<rparr> else s)
     in case find_unused_port E w (current_udp_port s1) (udp_end_port_range s1) (host s1) UDP of
          Inl e \<Rightarrow> (Inl (VPCSError (str_exn e)), s1)
        | Inr port \<Rightarrow> (Inr port, s1\<lparr>current_udp_port := current_udp_port s1 + 1\<rparr>))"

definition allocate_udp_port :: "('d, 'w) env \<Rightarrow> dict \<Rightarrow> 'd vpcs \<Rightarrow> 'w \<Rightarrow> outcome \<times> 'd vpcs \<times> 'w" where
  "allocate_udp_port E request s w =
    on_instance E VPCS_ALLOCATE_UDP_PORT_SCHEMA request s w (\<lambda>k d.
      case udp_port E s w of
        (Inl e, s1) \<Rightarrow> (caught e, s1, w)
      | (Inr port, s1) \<Rightarrow>
        (case getitem request ''port_id'' of
           Inl e \<Rightarrow> (Raised e, s1, w)
         | Inr port_id \<Rightarrow> (Response (JObj [(''lport'', JInt port), (''port_id'', port_id)]), s1, w)))"

subsection \<open>VPCS.add\_nio and VPCS.delete\_nio\<close>

text \<open>\<open>struct.unpack("<IIIII", caps)\<close>: five little-endian 32-bit words, from 20 bytes exactly.\<close>

definition unpack_IIIII :: "8 word list \<Rightarrow> exn + 32 word list" where
  "unpack_IIIII caps =
    (if length caps \<noteq> 20 then Inl StructError
     else Inr (map (\<lambda>i. word_rcat (rev (take 4 (drop (4 * i) caps)))) [0..<5]))"

definition check_for_privileged_access :: "('d, 'w) env \<Rightarrow> 'd vpcs \<Rightarrow> 'w \<Rightarrow> json \<Rightarrow> exn + unit" where
  "check_for_privileged_access E s w device =
    (if geteuid E w = 0 then Inr ()
     else case listxattr E w (VPCS_path s) of
       Inl e \<Rightarrow> Inl e
     | Inr names \<Rightarrow>
       let denied = Inl (VPCSError (py_str (VPCS_path s) @ '' has no privileged access to ''
                                    @ py_str device @ ''.''))
       in if ''security.capability'' \<in> set names then
            (case getxattr E w (VPCS_path s) ''security.capability'' of
               Inl e \<Rightarrow> Inr ()
             | Inr caps \<Rightarrow>
               (case unpack_IIIII caps of
                  Inl e \<Rightarrow> Inr ()
                | Inr unpacked \<Rightarrow>
                  if (unpacked ! 1) AND (push_bit 13 1) \<noteq> 0 then Inr () else denied))
          else denied)"

text \<open>
  The first \<open>try\<close> of \<open>add_nio\<close>, which builds the NIO that the request describes.
  Modelled from the spec: the classes \<open>NIO_UDP\<close> and \<open>NIO_TAP\<close> of the package \<open>nios\<close>
  are not among the sources; by the spec (3, 4.2) an endpoint is "UDP-tunnel(local port,
  remote host, remote port)" or "TAP(device name)", immutable and "side-effect-free to
  construct".
\<close>

definition create_nio :: "('d, 'w) env \<Rightarrow> 'd vpcs \<Rightarrow> 'w \<Rightarrow> dict \<Rightarrow> exn + nio" where
  "create_nio E s w request =
    (case getitem request ''nio'' of
       Inl e \<Rightarrow> Inl e
     | Inr (JObj spec) \<Rightarrow>
       (case getitem spec ''type'' of
          Inl e \<Rightarrow> Inl e
        | Inr type \<Rightarrow>
          if type = JStr ''nio_udp'' then
            (case (getitem spec ''lport'', getitem spec ''rhost'', getitem spec ''rport'') of
               (Inl e, _, _) \<Rightarrow> Inl e
             | (_, Inl e, _) \<Rightarrow> Inl e
             | (_, _, Inl e) \<Rightarrow> Inl e
             | (Inr lport, Inr rhost, Inr rport) \<Rightarrow> Inr (NIO_UDP lport rhost rport))
          else if type = JStr ''nio_tap'' then
            (case getitem spec ''tap_device'' of
               Inl e \<Rightarrow> Inl e
             | Inr tap_device \<Rightarrow>
               (case check_for_privileged_access E s w tap_device of
                  Inl e \<Rightarrow> Inl e
                | Inr _ \<Rightarrow> Inr (NIO_TAP tap_device)))
          else Inl (VPCSError (''Requested NIO does not exist or is not supported: '' @ py_str type)))
     | Inr _ \<Rightarrow> Inl TypeError)"

definition add_nio :: "('d, 'w) env \<Rightarrow> dict \<Rightarrow> 'd vpcs \<Rightarrow> 'w \<Rightarrow> outcome \<times> 'd vpcs \<times> 'w" where
  "add_nio E request s w =
    on_instance E VPCS_ADD_NIO_SCHEMA request s w (\<lambda>k d.
      case (getitem request ''slot'', getitem request ''port'') of
        (Inl e, _) \<Rightarrow> (Raised e, s, w)
      | (_, Inl e) \<Rightarrow> (Raised e, s, w)
      | (Inr slot, Inr port) \<Rightarrow>
        (case create_nio E s w request of
           Inl e \<Rightarrow> (caught e, s, w)
         | Inr nio \<Rightarrow>
           (case slot_add_nio_binding E d slot port nio of
              Inl e \<Rightarrow> (caught e, s, w)
            | Inr d1 \<Rightarrow>
              (case getitem request ''port_id'' of
                 Inl e \<Rightarrow> (Raised e, store k d1 s, w)
               | Inr port_id \<Rightarrow> (Response (JObj [(''port_id'', port_id)]), store k d1 s, w)))))"

definition delete_nio :: "('d, 'w) env \<Rightarrow> dict \<Rightarrow> 'd vpcs \<Rightarrow> 'w \<Rightarrow> outcome \<times> 'd vpcs \<times> 'w" where
  "delete_nio E request s w =
    on_instance E VPCS_DELETE_NIO_SCHEMA request s w (\<lambda>k d.
      case (getitem request ''slot'', getitem request ''port'') of
        (Inl e, _) \<Rightarrow> (Raised e, s, w)
      | (_, Inl e) \<Rightarrow> (Raised e, s, w)
      | (Inr slot, Inr port) \<Rightarrow>
        (case slot_remove_nio_binding E d slot port of
           Inl e \<Rightarrow> (caught e, s, w)
         | Inr d1 \<Rightarrow> (Response (JBool True), store k d1 s, w)))"


subsection \<open>Allocations in a row\<close>

text \<open>
  \<open>N\<close> allocations on one pool, one after the other, with nothing released in between:
  the ports they return, in order.  Each allocation meets its own state of the world; a
  console allocation is made for a new device.
\<close>

fun console_ports :: "('d, 'w) env \<Rightarrow> ('w \<times> 'd) list \<Rightarrow> 'd vpcs \<Rightarrow> exn + int list \<times> 'd vpcs" where
  "console_ports E [] s = Inr ([], s)"
| "console_ports E ((w, d) # rest) s =
    (case console_port E d s w of
       (Inl e, s1) \<Rightarrow> Inl e
     | (Inr (port, d1), s1) \<Rightarrow>
       (case console_ports E rest s1 of
          Inl e \<Rightarrow> Inl e
        | Inr (ports, s2) \<Rightarrow> Inr (port # ports, s2)))"

fun udp_ports :: "('d, 'w) env \<Rightarrow> 'w list \<Rightarrow> 'd vpcs \<Rightarrow> exn + int list \<times> 'd vpcs" where
  "udp_ports E [] s = Inr ([], s)"
| "udp_ports E (w # rest) s =
    (case udp_port E s w of
       (Inl e, s1) \<Rightarrow> Inl e
     | (Inr port, s1) \<Rightarrow>
       (case udp_ports E rest s1 of
          Inl e \<Rightarrow> Inl e
        | Inr (ports, s2) \<Rightarrow> Inr (port # ports, s2)))"

text \<open>Requests to create a device, handled one after the other.\<close>

fun creates :: "('d, 'w) env \<Rightarrow> dict list \<Rightarrow> 'd vpcs \<Rightarrow> 'w \<Rightarrow> outcome list \<times> 'd vpcs \<times> 'w" where
  "creates E [] s w = ([], s, w)"
| "creates E (request # rest) s w =
    (case VPCS_create E request s w of
       (out, s1, w1) \<Rightarrow>
         (case creates E rest s1 w1 of (outs, s2, w2) \<Rightarrow> (out # outs, s2, w2)))"

subsection \<open>Notions for the statements\<close>

text \<open>
  The fields of an update request that the device exposes and whose value differs from the
  one the device holds; the port at which a pool starts its scan (the cursor, or the start
  of the range when the cursor is reset first); the text of the error sent for an unknown
  device identifier.
\<close>

definition changed_fields :: "('d, 'w) env \<Rightarrow> 'd \<Rightarrow> dict \<Rightarrow> dict" where
  "changed_fields E d items = filter (\<lambda>(name, v). hasattr E d name \<and> attr_ne E d name v) items"

definition console_scan_start :: "'d vpcs \<Rightarrow> int" where
  "console_scan_start s =
    (if current_console_port s > console_end_port_range s then console_start_port_range s
     else current_console_port s)"

definition udp_scan_start :: "'d vpcs \<Rightarrow> int" where
  "udp_scan_start s =
    (if current_udp_port s \<ge> udp_end_port_range s then udp_start_port_range s
     else current_udp_port s)"

definition unknown_id :: "json \<Rightarrow> string" where
  "unknown_id VPCS_id = ''VPCS device ID '' @ py_str VPCS_id @ '' doesn't exist''"

section \<open>Test doubles\<close>

subsection \<open>A WMI provider\<close>

text \<open>
  A Windows 10 host with one management service, the virtual machines \<open>vms\<close>, a
  \<open>RequestStateChange\<close> that answers \<open>ret\<close> and a job whose successive states are
  \<open>fetch 0\<close>, \<open>fetch 1\<close>, ...; \<open>job_after k final\<close> reports "running" \<open>k\<close> times and
  \<open>final\<close> from then on.
\<close>

definition gns3_vm :: vm where
  "gns3_vm = \<lparr>ElementName = ''GNS3 VM'', Caption = ''Virtual Machine'', EnabledState = 3\<rparr>"

definition job_after :: "nat \<Rightarrow> int \<Rightarrow> nat \<Rightarrow> job" where
  "job_after k final n =
     \<lparr>JobState = (if n < k then WMI_JOB_STATE_RUNNING else final), ErrorSummaryDescription = ''failure''\<rparr>"

definition stub_wmi :: "vm list \<Rightarrow> int \<Rightarrow> (nat \<Rightarrow> job) \<Rightarrow> wmi" where
  "stub_wmi vms ret fetch =
     \<lparr>platform = ''win32'', windowsversion_major = 10,
      Win32_Processor = [\<lparr>Manufacturer = ''GenuineIntel'', VirtualizationFirmwareEnabled = True\<rparr>],
      Win32_ComputerSystem = [True], virtualization_v2 = True,
      Msvm_VirtualSystemManagementService = [0], Msvm_ComputerSystem = vms,
      RequestStateChange = (\<lambda>v st. (''job'', ret)), get_wmi_obj = (\<lambda>path. fetch),
      cpu_count = 4, ModifyResourceSettings = (\<lambda>v c r. None)\<rparr>"

definition new_hyperv :: hyperv where
  "new_hyperv = \<lparr>vmname = ''GNS3 VM'', vcpus = 1, ram = 2048, conn = False, vm_handle = None,
                 management = None, running = False\<rparr>"

subsection \<open>A world and a device class\<close>

text \<open>
  A device that is a bag of attributes, all of them settable, and a world that records the
  user of the process, the extended attributes of the VPCS binary (\<open>None\<close> for one that is
  listed and cannot be read), the directories that exist, the ports that are bound and the
  next free device identifier.
\<close>

record sim_device =
  sd_id :: int
  sd_attrs :: dict

record sim_world =
  sw_euid :: nat
  sw_xattrs :: "(string \<times> 8 word list option) list"
  sw_dirs :: "string list"
  sw_bound :: "int list"
  sw_next_id :: int

definition sim_attr :: "sim_device \<Rightarrow> string \<Rightarrow> json" where
  "sim_attr d name = (case map_of (sd_attrs d) name of Some v \<Rightarrow> v | None \<Rightarrow> JNull)"

definition sim_VPCSDevice ::
  "sim_world \<Rightarrow> json \<Rightarrow> string \<Rightarrow> string \<Rightarrow> json \<Rightarrow> (exn + sim_device) \<times> sim_world" where
  "sim_VPCSDevice w path dir host_name name =
    (Inr \<lparr>sd_id = sw_next_id w,
          sd_attrs = [(''name'', (if name = JNull then JStr ''VPCS'' else name)),
                      (''path'', path), (''working_dir'', JStr dir), (''console'', JNull)]\<rparr>,
     w\<lparr>sw_next_id := sw_next_id w + 1\<rparr>)"

definition sim :: "(sim_device, sim_world) env" where
  "sim =
    \<lparr>validate_request = (\<lambda>request sch. True),
     geteuid = sw_euid,
     listxattr = (\<lambda>w path. Inr (map fst (sw_xattrs w))),
     getxattr = (\<lambda>w path name.
        case map_of (sw_xattrs w) name of
          Some (Some v) \<Rightarrow> Inr v
        | _ \<Rightarrow> Inl (OSError ''No data available'')),
     makedirs = (\<lambda>w dir.
        if dir \<in> set (sw_dirs w) then (FileExistsError, w)
        else (Created, w\<lparr>sw_dirs := dir # sw_dirs w\<rparr>)),
     isdir = (\<lambda>w dir. dir \<in> set (sw_dirs w)),
     move = (\<lambda>w src dst.
        if src \<in> set (sw_dirs w) then (None, w\<lparr>sw_dirs := dst # remove1 src (sw_dirs w)\<rparr>)
        else (Some ''No such file or directory'', w)),
     write_file = (\<lambda>w path text. (None, w)),
     port_in_use = (\<lambda>w st host_name p. p \<in> set (sw_bound w)),
     decodestring = (\<lambda>text. Inr text),
     VPCSDevice = sim_VPCSDevice,
     VPCSDevice_reset = (\<lambda>w. w\<lparr>sw_next_id := 1\<rparr>),
     dev_id = sd_id,
     dev_name = (\<lambda>d. sim_attr d ''name''),
     dev_working_dir = (\<lambda>d. sim_attr d ''working_dir''),
     dev_defaults = (\<lambda>d. []),
     hasattr = (\<lambda>d name. contains (sd_attrs d) name),
     attr_ne = (\<lambda>d name v. map_of (sd_attrs d) name \<noteq> Some v),
     setattr = (\<lambda>d name v. Inr (d\<lparr>sd_attrs := AList.update name v (sd_attrs d)\<rparr>)),
     dev_command = (\<lambda>d. Inr ''vpcs''),
     dev_is_running = (\<lambda>d w. False),
     dev_start = (\<lambda>d w. (None, d, w)),
     dev_stop = (\<lambda>d w. (None, d, w)),
     dev_delete = (\<lambda>d w. (None, d, w)),
     slot_add_nio_binding = (\<lambda>d slot port nio. Inr d),
     slot_remove_nio_binding = (\<lambda>d slot port. Inr d)\<rparr>"

definition sim_world0 :: sim_world where
  "sim_world0 = \<lparr>sw_euid = 1000, sw_xattrs = [], sw_dirs = [], sw_bound = [], sw_next_id = 1\<rparr>"

definition PC1 :: sim_device where
  "PC1 = \<lparr>sd_id = 1,
          sd_attrs = [(''name'', JStr ''PC1''), (''path'', JStr ''/usr/bin/vpcs''),
                      (''working_dir'', JStr ''/projects''), (''console'', JInt 4001)]\<rparr>"

text \<open>A module with the console range 4001 to 4003 and the UDP range 30001 to 30003.\<close>

definition small :: "sim_device vpcs" where
  "small = (init (JStr ''/usr/bin/vpcs'') ''127.0.0.1'' ''/projects'' ''/tmp'')
             \<lparr>console_end_port_range := 4003, udp_end_port_range := 30003\<rparr>"

text \<open>
  A request to bind a TAP device to a port of device 1, and the value of a
  \<open>security.capability\<close> attribute (revision 2) whose permitted set holds \<open>CAP_NET_RAW\<close>.
\<close>

definition tap_request :: dict where
  "tap_request = [(''id'', JInt 1), (''slot'', JInt 0), (''port'', JInt 0), (''port_id'', JInt 7),
                  (''nio'', JObj [(''type'', JStr ''nio_tap''), (''tap_device'', JStr ''tap0'')])]"

definition caps_net_raw :: "8 word list" where
  "caps_net_raw = [0x01, 0, 0, 0x02,  0, 0x20, 0, 0,  0, 0, 0, 0,  0, 0, 0, 0,  0, 0, 0, 0]"

text \<open>
  An update of device 1, a device about to get its console port, a request to create a
  device, and a world in which the three console ports of \<open>small\<close> are bound.
\<close>

definition rename_request :: dict where
  "rename_request = [(''id'', JInt 1), (''name'', JStr ''PC2''), (''console'', JInt 4001), (''ram'', JInt 5)]"

definition PC_new :: sim_device where
  "PC_new = \<lparr>sd_id = 2, sd_attrs = [(''name'', JStr ''PC2''), (''console'', JNull)]\<rparr>"

definition create_request :: dict where
  "create_request = [(''path'', JStr ''/usr/bin/vpcs'')]"

definition busy_world :: sim_world where
  "busy_world = sim_world0\<lparr>sw_bound := [4001, 4002, 4003]\<rparr>"


section \<open>Properties of the Hyper-V controller\<close>

subsection \<open>The polling loop\<close>

lemma wait_job_running:
  "(\<And>i. n \<le> i \<Longrightarrow> i < n + k \<Longrightarrow> JobState (fetch i) = WMI_JOB_STATE_RUNNING) \<Longrightarrow>
   JobState (fetch (n + k)) \<noteq> WMI_JOB_STATE_RUNNING \<Longrightarrow>
   wait_job fetch n ms = Some (fetch (n + k), Suc (n + k), ms + 100 * k)"
proof (induction k arbitrary: n ms)
  case 0
  then show ?case by (subst wait_job.simps) simp
next
  case (Suc k)
  have r: "JobState (fetch n) = WMI_JOB_STATE_RUNNING"
    using Suc.prems(1)[of n] by simp
  have "wait_job fetch (Suc n) (ms + 100)
        = Some (fetch (Suc n + k), Suc (Suc n + k), ms + 100 + 100 * k)"
    by (rule Suc.IH) (use Suc.prems in auto)
  then show ?case using r by (subst wait_job.simps) simp
qed

lemma wait_job_Some:
  assumes "wait_job fetch n ms = Some r"
  shows "\<exists>k. (\<forall>i. n \<le> i \<and> i < n + k \<longrightarrow> JobState (fetch i) = WMI_JOB_STATE_RUNNING) \<and>
             JobState (fetch (n + k)) \<noteq> WMI_JOB_STATE_RUNNING \<and>
             r = (fetch (n + k), Suc (n + k), ms + 100 * k)"
proof (rule wait_job.raw_induct[where P = "\<lambda>fetch n ms r.
         \<exists>k. (\<forall>i. n \<le> i \<and> i < n + k \<longrightarrow> JobState (fetch i) = WMI_JOB_STATE_RUNNING) \<and>
             JobState (fetch (n + k)) \<noteq> WMI_JOB_STATE_RUNNING \<and>
             r = (fetch (n + k), Suc (n + k), ms + 100 * k)", OF _ assms])
  fix loop :: "(nat \<Rightarrow> job) \<Rightarrow> nat \<Rightarrow> nat \<Rightarrow> (job \<times> nat \<times> nat) option" and fetch n ms r
  assume IH: "\<And>fetch n ms r. loop fetch n ms = Some r \<Longrightarrow>
         \<exists>k. (\<forall>i. n \<le> i \<and> i < n + k \<longrightarrow> JobState (fetch i) = WMI_JOB_STATE_RUNNING) \<and>
             JobState (fetch (n + k)) \<noteq> WMI_JOB_STATE_RUNNING \<and>
             r = (fetch (n + k), Suc (n + k), ms + 100 * k)"
    and step: "(if JobState (fetch n) = WMI_JOB_STATE_RUNNING then loop fetch (Suc n) (ms + 100)
                else Some (fetch n, Suc n, ms)) = Some r"
  show "\<exists>k. (\<forall>i. n \<le> i \<and> i < n + k \<longrightarrow> JobState (fetch i) = WMI_JOB_STATE_RUNNING) \<and>
            JobState (fetch (n + k)) \<noteq> WMI_JOB_STATE_RUNNING \<and>
            r = (fetch (n + k), Suc (n + k), ms + 100 * k)"
  proof (cases "JobState (fetch n) = WMI_JOB_STATE_RUNNING")
    case False
    with step have "r = (fetch n, Suc n, ms)" by simp
    with False show ?thesis by (intro exI[of _ 0]) simp
  next
    case True
    with step have "loop fetch (Suc n) (ms + 100) = Some r" by simp
    from IH[OF this] obtain k where
      k: "\<forall>i. Suc n \<le> i \<and> i < Suc n + k \<longrightarrow> JobState (fetch i) = WMI_JOB_STATE_RUNNING"
         "JobState (fetch (Suc n + k)) \<noteq> WMI_JOB_STATE_RUNNING"
         "r = (fetch (Suc n + k), Suc (Suc n + k), ms + 100 + 100 * k)"
      by blast
    have "\<forall>i. n \<le> i \<and> i < n + Suc k \<longrightarrow> JobState (fetch i) = WMI_JOB_STATE_RUNNING"
    proof (intro allI impI)
      fix i assume "n \<le> i \<and> i < n + Suc k"
      then have "i = n \<or> (Suc n \<le> i \<and> i < Suc n + k)" by arith
      then show "JobState (fetch i) = WMI_JOB_STATE_RUNNING" using True k(1) by blast
    qed
    with k(2,3) show ?thesis by (intro exI[of _ "Suc k"]) simp
  qed
qed

text \<open>
  The loop fails to end only when the job is found running at every fetch, and so does
  \<open>_set_state\<close>.
\<close>

lemma wait_job_None:
  assumes "wait_job fetch n ms = None" and "n \<le> i"
  shows "JobState (fetch i) = WMI_JOB_STATE_RUNNING"
proof (rule ccontr)
  assume "JobState (fetch i) \<noteq> WMI_JOB_STATE_RUNNING"
  with assms(2) have ex: "\<exists>j. JobState (fetch (n + j)) \<noteq> WMI_JOB_STATE_RUNNING"
    by (intro exI[of _ "i - n"]) simp
  define k where "k = (LEAST j. JobState (fetch (n + j)) \<noteq> WMI_JOB_STATE_RUNNING)"
  have stop: "JobState (fetch (n + k)) \<noteq> WMI_JOB_STATE_RUNNING"
    unfolding k_def using ex by (rule LeastI_ex)
  have before: "JobState (fetch j) = WMI_JOB_STATE_RUNNING" if "n \<le> j" "j < n + k" for j
  proof -
    from that have "j - n < k" by simp
    then have "\<not> JobState (fetch (n + (j - n))) \<noteq> WMI_JOB_STATE_RUNNING"
      unfolding k_def by (rule not_less_Least)
    with that(1) show ?thesis by simp
  qed
  from wait_job_running[of n k fetch ms, OF before stop] assms(1) show False by simp
qed

lemma set_state_None:
  assumes "set_state w s state = None"
  shows "\<exists>v path. vm_handle s = Some v \<and>
           RequestStateChange w v state = (path, WMI_JOB_STATUS_STARTED) \<and>
           (\<forall>i. JobState (get_wmi_obj w path i) = WMI_JOB_STATE_RUNNING)"
proof -
  from assms obtain v where v: "vm_handle s = Some v"
    by (auto simp: set_state_def split: option.splits)
  obtain path ret where rq: "RequestStateChange w v state = (path, ret)"
    by (cases "RequestStateChange w v state")
  from assms v rq have ret: "ret = WMI_JOB_STATUS_STARTED"
    and "wait_job (get_wmi_obj w path) 0 0 = None"
    by (auto simp: set_state_def split: option.splits if_splits prod.splits)
  then have "\<forall>i. JobState (get_wmi_obj w path i) = WMI_JOB_STATE_RUNNING"
    using wait_job_None by blast
  with v rq ret show ?thesis by blast
qed

lemma set_state_Inr:
  assumes "set_state w s state = Some (Inr (), c, t)"
  shows "\<exists>v path k. vm_handle s = Some v \<and>
           RequestStateChange w v state = (path, WMI_JOB_STATUS_STARTED) \<and>
           (\<forall>i<k. JobState (get_wmi_obj w path i) = WMI_JOB_STATE_RUNNING) \<and>
           JobState (get_wmi_obj w path k) = WMI_JOB_STATE_COMPLETED"
proof -
  from assms obtain v where v: "vm_handle s = Some v"
    by (auto simp: set_state_def split: option.splits)
  obtain path ret where rq: "RequestStateChange w v state = (path, ret)"
    by (cases "RequestStateChange w v state")
  have ret: "ret = WMI_JOB_STATUS_STARTED"
    using assms v rq by (auto simp: set_state_def split: if_splits)
  with assms v rq obtain r where r: "wait_job (get_wmi_obj w path) 0 0 = Some r"
    and fin: "JobState (fst r) = WMI_JOB_STATE_COMPLETED"
    by (auto simp: set_state_def split: option.splits if_splits)
  from wait_job_Some[OF r] obtain k where
    "\<forall>i. 0 \<le> i \<and> i < 0 + k \<longrightarrow> JobState (get_wmi_obj w path i) = WMI_JOB_STATE_RUNNING"
    "r = (get_wmi_obj w path (0 + k), Suc (0 + k), 0 + 100 * k)"
    by blast
  with fin v rq ret show ?thesis by auto
qed

lemma connect_running: "running (snd (connect w s)) = running s"
  by (auto simp: connect_def Let_def split: sum.splits)

lemma set_state_started:
  assumes "vm_handle s = Some v"
    and "RequestStateChange w v state = (path, WMI_JOB_STATUS_STARTED)"
    and "\<forall>i<k. JobState (get_wmi_obj w path i) = WMI_JOB_STATE_RUNNING"
    and "JobState (get_wmi_obj w path k) \<noteq> WMI_JOB_STATE_RUNNING"
  shows "set_state w s state =
    Some (if JobState (get_wmi_obj w path k) = WMI_JOB_STATE_COMPLETED then Inr ()
          else Inl (GNS3VMError (''Error while changing state: ''
                                 @ ErrorSummaryDescription (get_wmi_obj w path k))),
          Suc k, 100 * k)"
proof -
  have "wait_job (get_wmi_obj w path) 0 0
        = Some (get_wmi_obj w path (0 + k), Suc (0 + k), 0 + 100 * k)"
    by (rule wait_job_running) (use assms(3,4) in auto)
  then show ?thesis using assms(1,2) by (simp add: set_state_def)
qed

text \<open>Two runs of \<open>start\<close> on a new controller: the job completes, the job fails.\<close>

lemma start_job_completed:
  "start (stub_wmi [gns3_vm] 4096 (job_after 3 7)) new_hyperv
   = Some (Inr (), new_hyperv\<lparr>conn := True, management := Some 0, vm_handle := Some gns3_vm,
                              running := True\<rparr>)"
proof -
  have "set_state (stub_wmi [gns3_vm] 4096 (job_after 3 7))
          (new_hyperv\<lparr>conn := True, management := Some 0, vm_handle := Some gns3_vm\<rparr>) 2
        = Some (Inr (), 4, 300)"
    using set_state_started [of "new_hyperv\<lparr>conn := True, management := Some 0, vm_handle := Some gns3_vm\<rparr>"
      gns3_vm "stub_wmi [gns3_vm] 4096 (job_after 3 7)" 2 "''job''" 3]
    by (simp add: stub_wmi_def new_hyperv_def job_after_def)
  then show ?thesis
    by (simp add: start_def connect_def check_requirements_def find_vm_def query_ElementName_def
        is_running_def set_vcpus_ram_def guarded_set_state_def stub_wmi_def new_hyperv_def gns3_vm_def)
qed

lemma start_job_failed:
  "start (stub_wmi [gns3_vm] 4096 (job_after 3 10)) new_hyperv
   = Some (Inl (GNS3VMError ''Failed to start the GNS3 VM: Error while changing state: failure''),
           new_hyperv\<lparr>conn := True, management := Some 0, vm_handle := Some gns3_vm\<rparr>)"
proof -
  have "set_state (stub_wmi [gns3_vm] 4096 (job_after 3 10))
          (new_hyperv\<lparr>conn := True, management := Some 0, vm_handle := Some gns3_vm\<rparr>) 2
        = Some (Inl (GNS3VMError ''Error while changing state: failure''), 4, 300)"
    using set_state_started [of "new_hyperv\<lparr>conn := True, management := Some 0, vm_handle := Some gns3_vm\<rparr>"
      gns3_vm "stub_wmi [gns3_vm] 4096 (job_after 3 10)" 2 "''job''" 3]
    by (simp add: stub_wmi_def new_hyperv_def job_after_def)
  then show ?thesis
    by (simp add: start_def connect_def check_requirements_def find_vm_def query_ElementName_def
        is_running_def set_vcpus_ram_def guarded_set_state_def stub_wmi_def new_hyperv_def gns3_vm_def)
qed

subsection \<open>Looking a virtual machine up\<close>

text \<open>
  C8.  \<open>_find_vm\<close> answers a query by name in one of three ways: when no virtual machine
  carries the name the result is \<open>None\<close>; when exactly one does, that machine is returned;
  when more than one does, \<open>GNS3VMError\<close> ("Duplicate VM name found for ...") is raised, so
  that none of the matches is returned.
\<close>

theorem find_vm_unique_or_error:
  "(filter (\<lambda>v. ElementName v = name) (Msvm_ComputerSystem w) = [] \<longrightarrow>
      find_vm w name = Inr None) \<and>
   (\<forall>v. filter (\<lambda>v. ElementName v = name) (Msvm_ComputerSystem w) = [v] \<longrightarrow>
      find_vm w name = Inr (Some v)) \<and>
   (1 < length (filter (\<lambda>v. ElementName v = name) (Msvm_ComputerSystem w)) \<longrightarrow>
      find_vm w name = Inl (GNS3VMError (''Duplicate VM name found for '' @ name)))"
  by (auto simp: find_vm_def query_ElementName_def Let_def)

theorem find_vm_unique_or_error_witness:
  "find_vm (stub_wmi [] 0 (job_after 0 7)) ''GNS3 VM'' = Inr None \<and>
   find_vm (stub_wmi [gns3_vm, gns3_vm\<lparr>ElementName := ''other''\<rparr>] 0 (job_after 0 7)) ''GNS3 VM''
     = Inr (Some gns3_vm) \<and>
   find_vm (stub_wmi [gns3_vm, gns3_vm\<lparr>EnabledState := 2\<rparr>] 0 (job_after 0 7)) ''GNS3 VM''
     = Inl (GNS3VMError ''Duplicate VM name found for GNS3 VM'')"
  using find_vm_unique_or_error [of "''GNS3 VM''" "stub_wmi [] 0 (job_after 0 7)"]
    find_vm_unique_or_error [of "''GNS3 VM''"
      "stub_wmi [gns3_vm, gns3_vm\<lparr>ElementName := ''other''\<rparr>] 0 (job_after 0 7)"]
    find_vm_unique_or_error [of "''GNS3 VM''"
      "stub_wmi [gns3_vm, gns3_vm\<lparr>EnabledState := 2\<rparr>] 0 (job_after 0 7)"]
  by (simp add: stub_wmi_def gns3_vm_def)

subsection \<open>Changing the state\<close>

text \<open>
  C2.  The request to enable the virtual machine is answered at once with the code 0, the
  code of an immediate success; \<open>_set_state\<close> raises \<open>GNS3VMError\<close> all the same, and so it
  does for 32775.  The test \<open>ret != 0 or ret != 32775\<close> holds for every \<open>ret\<close>.
\<close>

theorem set_state_immediate_success_raises:
  "set_state (stub_wmi [gns3_vm] 0 (job_after 0 7)) (new_hyperv\<lparr>vm_handle := Some gns3_vm\<rparr>)
     HYPERV_VM_STATE_ENABLED
   = Some (Inl (GNS3VMError ''Failed to change state to 2''), 0, 0) \<and>
   set_state (stub_wmi [gns3_vm] 32775 (job_after 0 7)) (new_hyperv\<lparr>vm_handle := Some gns3_vm\<rparr>)
     HYPERV_VM_STATE_ENABLED
   = Some (Inl (GNS3VMError ''Failed to change state to 2''), 0, 0)"
  by (simp add: set_state_def stub_wmi_def new_hyperv_def str_int_def str_nat.simps digit_char_def)

text \<open>The run of C2 again: the immediate success is not reported as one.\<close>

theorem set_state_immediate_success_raises_witness:
  "set_state (stub_wmi [gns3_vm] 0 (job_after 0 7)) (new_hyperv\<lparr>vm_handle := Some gns3_vm\<rparr>)
     HYPERV_VM_STATE_ENABLED
   \<noteq> Some (Inr (), 0, 0)"
  using set_state_immediate_success_raises by simp

text \<open>
  C5.  When the request is answered with a started job (4096) that is found running at its
  first \<open>k\<close> fetches and in another state at the next one, \<open>_set_state\<close> returns after
  \<open>k + 1\<close> fetches of the job, \<open>k\<close> sleeps of 100 ms apart; it returns without an error if
  that state is "completed" (7), and raises \<open>GNS3VMError\<close> with the job's
  \<open>ErrorSummaryDescription\<close> otherwise.
\<close>

theorem set_state_job:
  assumes "vm_handle s = Some v"
    and "RequestStateChange w v state = (path, WMI_JOB_STATUS_STARTED)"
    and "\<forall>i<k. JobState (get_wmi_obj w path i) = WMI_JOB_STATE_RUNNING"
    and "JobState (get_wmi_obj w path k) \<noteq> WMI_JOB_STATE_RUNNING"
  shows "set_state w s state =
    Some (if JobState (get_wmi_obj w path k) = WMI_JOB_STATE_COMPLETED then Inr ()
          else Inl (GNS3VMError (''Error while changing state: ''
                                 @ ErrorSummaryDescription (get_wmi_obj w path k))),
          Suc k, 100 * k)"
  using assms by (rule set_state_started)

theorem set_state_job_witness:
  "set_state (stub_wmi [gns3_vm] 4096 (job_after 3 7)) (new_hyperv\<lparr>vm_handle := Some gns3_vm\<rparr>) 2
     = Some (Inr (), 4, 300) \<and>
   set_state (stub_wmi [gns3_vm] 4096 (job_after 3 10)) (new_hyperv\<lparr>vm_handle := Some gns3_vm\<rparr>) 2
     = Some (Inl (GNS3VMError ''Error while changing state: failure''), 4, 300)"
  using set_state_job [of "new_hyperv\<lparr>vm_handle := Some gns3_vm\<rparr>" gns3_vm
      "stub_wmi [gns3_vm] 4096 (job_after 3 7)" 2 "''job''" 3]
    set_state_job [of "new_hyperv\<lparr>vm_handle := Some gns3_vm\<rparr>" gns3_vm
      "stub_wmi [gns3_vm] 4096 (job_after 3 10)" 2 "''job''" 3]
  by (simp add: stub_wmi_def new_hyperv_def job_after_def)

subsection \<open>The mirrored flag\<close>

text \<open>
  C6.  Whenever \<open>start\<close> returns: if the flag \<open>running\<close> has become true, then \<open>start\<close>
  raised nothing and the virtual machine found by \<open>_connect\<close> either was observed enabled, or
  its change to the enabled state was requested, answered with a started job, and that job
  was polled until it reported "completed"; and if \<open>start\<close> raised anything, the flag is what
  it was.
\<close>

theorem start_running_confirmed:
  assumes "start w s = Some (r, s')"
  shows "(running s' \<and> \<not> running s \<longrightarrow>
            r = Inr () \<and>
            (\<exists>v. vm_handle s' = Some v \<and>
               (EnabledState v = HYPERV_VM_STATE_ENABLED \<or>
                (\<exists>path k. RequestStateChange w v HYPERV_VM_STATE_ENABLED = (path, WMI_JOB_STATUS_STARTED) \<and>
                   (\<forall>i<k. JobState (get_wmi_obj w path i) = WMI_JOB_STATE_RUNNING) \<and>
                   JobState (get_wmi_obj w path k) = WMI_JOB_STATE_COMPLETED)))) \<and>
         (\<forall>e. r = Inl e \<longrightarrow> running s' = running s)"
proof -
  define c where "c = (if \<not> conn s then connect w s else (Inr (), s))"
  obtain r1 s1 where c1: "c = (r1, s1)" by (cases c)
  have run1: "running s1 = running s"
    using c1 connect_running[of w s] by (auto simp: c_def split: if_splits)
  have unchanged: "\<forall>e. r = Inl e \<longrightarrow> running s' = running s"
    using assms c1 run1 unfolding start_def c_def[symmetric]
    by (auto split: sum.splits if_splits option.splits)
  have confirmed: "r = Inr () \<and>
            (\<exists>v. vm_handle s' = Some v \<and>
               (EnabledState v = HYPERV_VM_STATE_ENABLED \<or>
                (\<exists>path k. RequestStateChange w v HYPERV_VM_STATE_ENABLED = (path, WMI_JOB_STATUS_STARTED) \<and>
                   (\<forall>i<k. JobState (get_wmi_obj w path i) = WMI_JOB_STATE_RUNNING) \<and>
                   JobState (get_wmi_obj w path k) = WMI_JOB_STATE_COMPLETED)))"
    if a: "running s' \<and> \<not> running s"
  proof -
    have ok: "r = Inr ()" and s': "s' = s1\<lparr>running := True\<rparr>"
      using assms c1 run1 a unfolding start_def c_def[symmetric]
      by (auto split: sum.splits if_splits option.splits)
    show ?thesis
    proof (cases "is_running s1")
      case True
      then show ?thesis using ok s' by (auto simp: is_running_def split: option.splits)
    next
      case False
      with assms c1 ok obtain c t
        where "set_state w s1 HYPERV_VM_STATE_ENABLED = Some (Inr (), c, t)"
        unfolding start_def c_def[symmetric] guarded_set_state_def
        by (auto split: sum.splits if_splits option.splits exn.splits prod.splits)
      from set_state_Inr[OF this] show ?thesis using ok s' by auto
    qed
  qed
  from unchanged confirmed show ?thesis by blast
qed

theorem start_running_confirmed_witness:
  "start (stub_wmi [gns3_vm] 4096 (job_after 3 7)) new_hyperv
     = Some (Inr (), new_hyperv\<lparr>conn := True, management := Some 0, vm_handle := Some gns3_vm,
                                running := True\<rparr>) \<and>
   \<not> running new_hyperv \<and>
   RequestStateChange (stub_wmi [gns3_vm] 4096 (job_after 3 7)) gns3_vm 2 = (''job'', 4096) \<and>
   JobState (get_wmi_obj (stub_wmi [gns3_vm] 4096 (job_after 3 7)) ''job'' 3) = 7 \<and>
   start (stub_wmi [gns3_vm] 4096 (job_after 3 10)) new_hyperv
     = Some (Inl (GNS3VMError ''Failed to start the GNS3 VM: Error while changing state: failure''),
             new_hyperv\<lparr>conn := True, management := Some 0, vm_handle := Some gns3_vm\<rparr>) \<and>
   running (new_hyperv\<lparr>conn := True, management := Some 0, vm_handle := Some gns3_vm\<rparr>)
     = running new_hyperv"
  using start_running_confirmed [OF start_job_completed] start_running_confirmed [OF start_job_failed]
    start_job_completed start_job_failed
  by (simp add: stub_wmi_def new_hyperv_def job_after_def)


section \<open>Properties of the VPCS module\<close>

subsection \<open>VPCS.settings\<close>

text \<open>
  C10.  A \<open>VPCS.settings\<close> request that has neither the key \<open>working_dir\<close> nor the key
  \<open>project_name\<close> ends in the \<open>KeyError\<close> of \<open>request["project_name"]\<close>, which nothing
  catches: the handler does not take the request for a partial update.
\<close>

theorem settings_needs_working_dir_or_project_name:
  assumes "map_of request ''working_dir'' = None" and "map_of request ''project_name'' = None"
  shows "fst (settings E (Some request) s w) = Raised (KeyError ''project_name'')"
  using assms
  by (simp add: settings_def new_working_dir_def contains_def getitem_def Let_def split: option.splits)

theorem settings_needs_working_dir_or_project_name_witness:
  "fst (settings sim (Some [(''console_start_port_range'', JInt 5000), (''console_end_port_range'', JInt 5100)])
          small sim_world0)
   = Raised (KeyError ''project_name'')"
  using settings_needs_working_dir_or_project_name
    [of "[(''console_start_port_range'', JInt 5000), (''console_end_port_range'', JInt 5100)]" sim small sim_world0]
  by simp

subsection \<open>The privilege check before a TAP endpoint\<close>

lemma cap_net_raw_bit:
  assumes "length caps = 20"
  shows "\<exists>ws. unpack_IIIII caps = Inr ws \<and> ((ws ! 1) AND push_bit 13 1 \<noteq> 0) = bit (caps ! 5) 5"
proof -
  let ?xs = "take 4 (drop 4 caps)"
  let ?w = "word_rcat (rev ?xs) :: 32 word"
  let ?ws = "map (\<lambda>i. word_rcat (rev (take 4 (drop (4 * i) caps)))) [0..<5] :: 32 word list"
  have ws: "unpack_IIIII caps = Inr ?ws"
    using assms by (simp add: unpack_IIIII_def)
  have five: "[0..<5] = [0, 1, 2, 3, 4]" by (simp add: upt_rec)
  have sel: "?ws ! 1 = ?w"
    by (simp add: five)
  have "bit ?w 13 = bit (horner_sum uint (2 ^ LENGTH(8)) ?xs) 13"
    by (simp add: word_rcat_def bit_word_of_int_iff)
  also have "\<dots> = bit (?xs ! 1) 5"
    using assms by (simp only: bit_horner_sum_uint_exp_iff) simp
  also have "?xs ! 1 = caps ! 5"
    using assms by simp
  finally have b: "bit ?w 13 = bit (caps ! 5) 5" .
  have "(?w AND push_bit 13 1 = 0) = (\<not> bit ?w 13)"
    unfolding push_bit_of_1 by (rule and_exp_eq_0_iff_not_bit)
  then have "(?w AND push_bit 13 1 \<noteq> 0) = bit (caps ! 5) 5"
    using b by blast
  then have "(?ws ! 1 AND push_bit 13 1 \<noteq> 0) = bit (caps ! 5) 5"
    by (simp only: sel)
  with ws show ?thesis by (intro exI[of _ ?ws] conjI)
qed

lemma check_for_privileged_access_cases:
  "(geteuid E w = 0 \<longrightarrow> check_for_privileged_access E s w device = Inr ()) \<and>
   (geteuid E w \<noteq> 0 \<longrightarrow>
      (\<forall>e. listxattr E w (VPCS_path s) = Inl e \<longrightarrow> check_for_privileged_access E s w device = Inl e) \<and>
      (\<forall>names. listxattr E w (VPCS_path s) = Inr names \<longrightarrow>
         check_for_privileged_access E s w device =
           (if ''security.capability'' \<notin> set names \<or>
               (\<exists>caps. getxattr E w (VPCS_path s) ''security.capability'' = Inr caps \<and>
                       length caps = 20 \<and> \<not> bit (caps ! 5) 5)
            then Inl (VPCSError (py_str (VPCS_path s) @ '' has no privileged access to ''
                                 @ py_str device @ ''.''))
            else Inr ())))"
proof -
  have bitcase: "(case unpack_IIIII caps of Inl e \<Rightarrow> Inr ()
       | Inr unpacked \<Rightarrow> if (unpacked ! 1) AND (push_bit 13 1) \<noteq> 0 then Inr () else (x :: exn + unit))
      = (if bit (caps ! 5) 5 then Inr () else x)" if "length caps = 20" for caps x
  proof -
    from cap_net_raw_bit[OF that] obtain ws where u: "unpack_IIIII caps = Inr ws"
      and b: "((ws ! 1) AND push_bit 13 1 \<noteq> 0) = bit (caps ! 5) 5" by blast
    show ?thesis unfolding u by (simp only: sum.case b)
  qed
  have other: "length caps \<noteq> 20 \<Longrightarrow>
      (case unpack_IIIII caps of Inl e \<Rightarrow> Inr ()
       | Inr unpacked \<Rightarrow> if (unpacked ! 1) AND (push_bit 13 1) \<noteq> 0 then Inr () else (x :: exn + unit))
      = Inr ()" for caps x
    by (simp add: unpack_IIIII_def)
  have listed: "check_for_privileged_access E s w device =
           (if ''security.capability'' \<notin> set names \<or>
               (\<exists>caps. getxattr E w (VPCS_path s) ''security.capability'' = Inr caps \<and>
                       length caps = 20 \<and> \<not> bit (caps ! 5) 5)
            then Inl (VPCSError (py_str (VPCS_path s) @ '' has no privileged access to ''
                                 @ py_str device @ ''.''))
            else Inr ())"
    if euid: "geteuid E w \<noteq> 0" and l: "listxattr E w (VPCS_path s) = Inr names" for names
  proof (cases "''security.capability'' \<in> set names")
    case False
    then show ?thesis using euid l by (simp add: check_for_privileged_access_def)
  next
    case True
    show ?thesis
    proof (cases "getxattr E w (VPCS_path s) ''security.capability''")
      case (Inl e)
      then show ?thesis using euid l True by (simp add: check_for_privileged_access_def)
    next
      case (Inr caps)
      show ?thesis
      proof (cases "length caps = 20")
        case len: True
        show ?thesis
          using euid l True Inr len
          by (simp add: check_for_privileged_access_def bitcase[OF len] del: push_bit_of_1)
      next
        case len: False
        show ?thesis
          using euid l True Inr len
          by (simp add: check_for_privileged_access_def other[OF len] del: push_bit_of_1)
      qed
    qed
  qed
  have root: "geteuid E w = 0 \<Longrightarrow> check_for_privileged_access E s w device = Inr ()"
    by (simp add: check_for_privileged_access_def)
  have unlisted: "geteuid E w \<noteq> 0 \<Longrightarrow> listxattr E w (VPCS_path s) = Inl e \<Longrightarrow>
      check_for_privileged_access E s w device = Inl e" for e
    by (simp add: check_for_privileged_access_def)
  from root unlisted listed show ?thesis by blast
qed

text \<open>
  C1, as the code has it.  Building the TAP endpoint of an \<open>add_nio\<close> request succeeds when
  the process is privileged (euid 0).  When it is not and the extended attributes of the
  binary can be listed, it fails with the \<open>VPCSError\<close> "... has no privileged access to
  ..." exactly when \<open>security.capability\<close> is not listed, or is read as 20 bytes whose bit
  for \<open>CAP_NET_RAW\<close> (bit 13 of the second little-endian word: bit 5 of byte 5) is
  clear; in every other case it succeeds, also when the attribute is listed and reading or
  unpacking it fails.  In \<open>add_nio\<close> the \<open>VPCSError\<close> is sent as a custom error and
  nothing is changed.
\<close>

theorem tap_privilege_gate:
  assumes "getitem request ''nio'' = Inr (JObj spec)"
    and "getitem spec ''type'' = Inr (JStr ''nio_tap'')"
    and "getitem spec ''tap_device'' = Inr device"
  shows "(geteuid E w = 0 \<longrightarrow> create_nio E s w request = Inr (NIO_TAP device)) \<and>
         (geteuid E w \<noteq> 0 \<longrightarrow>
            (\<forall>names. listxattr E w (VPCS_path s) = Inr names \<longrightarrow>
               create_nio E s w request =
                 (if ''security.capability'' \<notin> set names \<or>
                     (\<exists>caps. getxattr E w (VPCS_path s) ''security.capability'' = Inr caps \<and>
                             length caps = 20 \<and> \<not> bit (caps ! 5) 5)
                  then Inl (VPCSError (py_str (VPCS_path s) @ '' has no privileged access to ''
                                       @ py_str device @ ''.''))
                  else Inr (NIO_TAP device)))) \<and>
         (validate_request E request VPCS_ADD_NIO_SCHEMA \<and> getitem request ''id'' = Inr i \<and>
          get_VPCS_instance s i = Inr (k, d) \<and>
          getitem request ''slot'' = Inr slot \<and> getitem request ''port'' = Inr port \<longrightarrow>
            (\<forall>m. create_nio E s w request = Inl (VPCSError m) \<longrightarrow>
                 add_nio E request s w = (CustomError m, s, w)))"
proof -
  have c: "create_nio E s w request =
      (case check_for_privileged_access E s w device of Inl e \<Rightarrow> Inl e | Inr _ \<Rightarrow> Inr (NIO_TAP device))"
    using assms by (simp add: create_nio_def)
  note p = check_for_privileged_access_cases[of E w s device]
  have 1: "geteuid E w = 0 \<longrightarrow> create_nio E s w request = Inr (NIO_TAP device)"
    using p by (simp add: c)
  have 2: "geteuid E w \<noteq> 0 \<longrightarrow>
            (\<forall>names. listxattr E w (VPCS_path s) = Inr names \<longrightarrow>
               create_nio E s w request =
                 (if ''security.capability'' \<notin> set names \<or>
                     (\<exists>caps. getxattr E w (VPCS_path s) ''security.capability'' = Inr caps \<and>
                             length caps = 20 \<and> \<not> bit (caps ! 5) 5)
                  then Inl (VPCSError (py_str (VPCS_path s) @ '' has no privileged access to ''
                                       @ py_str device @ ''.''))
                  else Inr (NIO_TAP device)))"
  proof (intro impI allI)
    fix names assume "geteuid E w \<noteq> 0" "listxattr E w (VPCS_path s) = Inr names"
    have d: "(case (if b then Inl x else Inr ()) of Inl e \<Rightarrow> Inl e | Inr _ \<Rightarrow> Inr (NIO_TAP device))
             = (if b then Inl x else Inr (NIO_TAP device))" for b and x :: exn
      by simp
    from \<open>geteuid E w \<noteq> 0\<close> \<open>listxattr E w (VPCS_path s) = Inr names\<close> p
    have chk: "check_for_privileged_access E s w device =
           (if ''security.capability'' \<notin> set names \<or>
               (\<exists>caps. getxattr E w (VPCS_path s) ''security.capability'' = Inr caps \<and>
                       length caps = 20 \<and> \<not> bit (caps ! 5) 5)
            then Inl (VPCSError (py_str (VPCS_path s) @ '' has no privileged access to ''
                                 @ py_str device @ ''.''))
            else Inr ())" by blast
    show "create_nio E s w request =
                 (if ''security.capability'' \<notin> set names \<or>
                     (\<exists>caps. getxattr E w (VPCS_path s) ''security.capability'' = Inr caps \<and>
                             length caps = 20 \<and> \<not> bit (caps ! 5) 5)
                  then Inl (VPCSError (py_str (VPCS_path s) @ '' has no privileged access to ''
                                       @ py_str device @ ''.''))
                  else Inr (NIO_TAP device))"
      unfolding c chk by (rule d)
  qed
  have 3: "validate_request E request VPCS_ADD_NIO_SCHEMA \<and> getitem request ''id'' = Inr i \<and>
          get_VPCS_instance s i = Inr (k, d) \<and>
          getitem request ''slot'' = Inr slot \<and> getitem request ''port'' = Inr port \<longrightarrow>
            (\<forall>m. create_nio E s w request = Inl (VPCSError m) \<longrightarrow>
                 add_nio E request s w = (CustomError m, s, w))"
    by (simp add: add_nio_def on_instance_def caught_def)
  from 1 2 3 show ?thesis by blast
qed

theorem tap_privilege_gate_witness:
  "create_nio sim small (sim_world0\<lparr>sw_euid := 0\<rparr>) tap_request = Inr (NIO_TAP (JStr ''tap0'')) \<and>
   create_nio sim small sim_world0 tap_request
     = Inl (VPCSError ''/usr/bin/vpcs has no privileged access to tap0.'') \<and>
   create_nio sim small (sim_world0\<lparr>sw_xattrs := [(''security.capability'', Some caps_net_raw)]\<rparr>) tap_request
     = Inr (NIO_TAP (JStr ''tap0'')) \<and>
   add_nio sim tap_request (small\<lparr>VPCS_instances := [(1, PC1)]\<rparr>) sim_world0
     = (CustomError ''/usr/bin/vpcs has no privileged access to tap0.'',
        small\<lparr>VPCS_instances := [(1, PC1)]\<rparr>, sim_world0)"
  using tap_privilege_gate [of tap_request "[(''type'', JStr ''nio_tap''), (''tap_device'', JStr ''tap0'')]"
      "JStr ''tap0''" sim "sim_world0\<lparr>sw_euid := 0\<rparr>" small]
    tap_privilege_gate [of tap_request "[(''type'', JStr ''nio_tap''), (''tap_device'', JStr ''tap0'')]"
      "JStr ''tap0''" sim sim_world0 "small\<lparr>VPCS_instances := [(1, PC1)]\<rparr>" "JInt 1" 1 PC1 "JInt 0" "JInt 0"]
    tap_privilege_gate [of tap_request "[(''type'', JStr ''nio_tap''), (''tap_device'', JStr ''tap0'')]"
      "JStr ''tap0''" sim "sim_world0\<lparr>sw_xattrs := [(''security.capability'', Some caps_net_raw)]\<rparr>" small]
  by (simp add: sim_def sim_world0_def small_def init_def PC1_def tap_request_def caps_net_raw_def
      getitem_def contains_def py_str_def get_VPCS_instance_def create_nio_def check_for_privileged_access_def)

text \<open>
  C1, as stated, fails: the process is unprivileged and the capability cannot be read
  (\<open>getxattr\<close> raises), and \<open>add_nio\<close> binds the TAP endpoint and answers with the port.
\<close>

theorem tap_unreadable_capability_passes:
  "geteuid sim (sim_world0\<lparr>sw_xattrs := [(''security.capability'', None)]\<rparr>) \<noteq> 0 \<and>
   listxattr sim (sim_world0\<lparr>sw_xattrs := [(''security.capability'', None)]\<rparr>) (JStr ''/usr/bin/vpcs'')
     = Inr [''security.capability''] \<and>
   getxattr sim (sim_world0\<lparr>sw_xattrs := [(''security.capability'', None)]\<rparr>) (JStr ''/usr/bin/vpcs'')
       ''security.capability''
     = Inl (OSError ''No data available'') \<and>
   add_nio sim tap_request (small\<lparr>VPCS_instances := [(1, PC1)]\<rparr>)
       (sim_world0\<lparr>sw_xattrs := [(''security.capability'', None)]\<rparr>)
     = (Response (JObj [(''port_id'', JInt 7)]), small\<lparr>VPCS_instances := [(1, PC1)]\<rparr>,
        sim_world0\<lparr>sw_xattrs := [(''security.capability'', None)]\<rparr>)"
  by (simp add: sim_def sim_world0_def small_def init_def PC1_def tap_request_def caps_net_raw_def
      getitem_def contains_def py_str_def add_nio_def on_instance_def get_VPCS_instance_def create_nio_def
      check_for_privileged_access_def store_def)

subsection \<open>VPCS.update\<close>

lemma update_fresh: "k \<notin> fst ` set al \<Longrightarrow> AList.update k v al = al @ [(k, v)]"
  by (induction al) auto

lemma update_settings_error:
  "update_settings E d items resp = (Inl e, d1) \<Longrightarrow>
   \<exists>(name, v) \<in> set items. \<exists>d0. hasattr E d0 name \<and> attr_ne E d0 name v \<and> setattr E d0 name v = Inl e"
proof (induction items arbitrary: d resp)
  case Nil
  then show ?case by simp
next
  case (Cons item rest)
  obtain n v where item: "item = (n, v)" by (cases item)
  show ?case
  proof (cases "hasattr E d n \<and> attr_ne E d n v")
    case False
    with Cons.prems item have "update_settings E d rest resp = (Inl e, d1)" by auto
    from Cons.IH[OF this] show ?thesis by auto
  next
    case True
    show ?thesis
    proof (cases "setattr E d n v")
      case (Inl e')
      with Cons.prems True item have "e' = e" by simp
      with Inl True item show ?thesis by auto
    next
      case (Inr d2)
      with Cons.prems True item
      have "update_settings E d2 rest (AList.update n v resp) = (Inl e, d1)" by simp
      from Cons.IH[OF this] show ?thesis by auto
    qed
  qed
qed

lemma update_settings_changed:
  assumes frame: "\<And>d n v d1. hasattr E d n \<Longrightarrow> setattr E d n v = Inr d1 \<Longrightarrow>
            hasattr E d1 = hasattr E d \<and> \<not> attr_ne E d1 n v \<and>
            (\<forall>m u. m \<noteq> n \<longrightarrow> attr_ne E d1 m u = attr_ne E d m u)"
  shows "distinct (map fst items) \<Longrightarrow> fst ` set items \<inter> fst ` set resp = {} \<Longrightarrow>
         update_settings E d items resp = (Inr response, dfin) \<Longrightarrow>
         response = resp @ changed_fields E d items \<and>
         hasattr E dfin = hasattr E d \<and>
         (\<forall>(n, v) \<in> set (changed_fields E d items). \<not> attr_ne E dfin n v) \<and>
         (\<forall>m u. m \<notin> fst ` set (changed_fields E d items) \<longrightarrow> attr_ne E dfin m u = attr_ne E d m u)"
proof (induction items arbitrary: d resp)
  case Nil
  then show ?case by (simp add: changed_fields_def)
next
  case (Cons item rest)
  obtain n v where item: "item = (n, v)" by (cases item)
  from Cons.prems item have fresh: "n \<notin> fst ` set rest" "n \<notin> fst ` set resp"
    and dist: "distinct (map fst rest)" and disj: "fst ` set rest \<inter> fst ` set resp = {}"
    by auto
  show ?case
  proof (cases "hasattr E d n \<and> attr_ne E d n v")
    case False
    have e1: "update_settings E d rest resp = (Inr response, dfin)"
      using Cons.prems(3) False item by auto
    have e2: "changed_fields E d (item # rest) = changed_fields E d rest"
      using False item by (auto simp: changed_fields_def)
    show ?thesis unfolding e2 by (rule Cons.IH[OF dist disj e1])
  next
    case True
    show ?thesis
    proof (cases "setattr E d n v")
      case (Inl e)
      then show ?thesis using Cons.prems(3) True item by auto
    next
      case (Inr d1)
      from frame[OF conjunct1[OF True] Inr] have h: "hasattr E d1 = hasattr E d" and written: "\<not> attr_ne E d1 n v"
        and others: "\<And>m u. m \<noteq> n \<Longrightarrow> attr_ne E d1 m u = attr_ne E d m u" by auto
      have same: "changed_fields E d1 rest = changed_fields E d rest"
        unfolding changed_fields_def using fresh(1) h others
        by (intro filter_cong) (auto simp: image_iff)
      have step: "update_settings E d1 rest (resp @ [(n, v)]) = (Inr response, dfin)"
        using Cons.prems(3) True item Inr update_fresh[OF fresh(2)] by simp
      have disj1: "fst ` set rest \<inter> fst ` set (resp @ [(n, v)]) = {}"
        using disj fresh(1) by auto
      have fl: "changed_fields E d (item # rest) = (n, v) # changed_fields E d rest"
        using True item by (simp add: changed_fields_def)
      from Cons.IH[OF dist disj1 step]
      have r1: "response = (resp @ [(n, v)]) @ changed_fields E d1 rest"
        and r2: "hasattr E dfin = hasattr E d1"
        and r3: "\<forall>(m, u) \<in> set (changed_fields E d1 rest). \<not> attr_ne E dfin m u"
        and r4: "\<forall>m u. m \<notin> fst ` set (changed_fields E d1 rest) \<longrightarrow> attr_ne E dfin m u = attr_ne E d1 m u"
        by auto
      have nin: "n \<notin> fst ` set (changed_fields E d rest)"
        using fresh(1) by (auto simp: image_iff changed_fields_def)
      have a: "response = resp @ changed_fields E d (item # rest)"
        using r1 same fl by simp
      have b: "hasattr E dfin = hasattr E d" using r2 h by simp
      have c: "\<forall>(m, u) \<in> set (changed_fields E d (item # rest)). \<not> attr_ne E dfin m u"
        unfolding fl using r3 r4 nin written same by auto
      have d: "\<forall>m u. m \<notin> fst ` set (changed_fields E d (item # rest)) \<longrightarrow>
                  attr_ne E dfin m u = attr_ne E d m u"
        unfolding fl using r4 same others by auto
      from a b c d show ?thesis by blast
    qed
  qed
qed

lemma push_startup_config_distinct:
  "push_startup_config E request d w = (Inr request1, w1) \<Longrightarrow> distinct (map fst request) \<Longrightarrow>
   distinct (map fst request1)"
  by (auto simp: push_startup_config_def Let_def distinct_update
       split: option.splits json.splits sum.splits prod.splits)

lemma caught_not_Response: "caught e \<noteq> Response r"
  by (simp add: caught_def split: exn.splits)

text \<open>
  C9.  Take a \<open>VPCS.update\<close> request for an existing instance, past the validation and the
  saving of a pushed startup-config, and a device class whose setters, when they accept a
  value for an exposed field, store it and touch no other field.  When the handler answers
  with a response, the response lists exactly the fields of the request that the device
  exposes and whose supplied value differed from the current one, in the order of the
  request; the device then holds the supplied value in each of them, and every other field
  compares as before, so nothing else was written.  Names that the device does not expose are
  passed over.  When the handler does not answer with a response, a setter of an exposed
  field with a differing value raised, and that exception is the outcome.
\<close>

theorem VPCS_update_changed_fields:
  assumes valid: "validate_request E request VPCS_UPDATE_SCHEMA"
    and id: "getitem request ''id'' = Inr VPCS_id"
    and inst: "get_VPCS_instance s VPCS_id = Inr (k, d)"
    and pushed: "push_startup_config E request d w = (Inr request1, w1)"
    and keys: "distinct (map fst request)"
    and frame: "\<forall>d n v d1. hasattr E d n \<longrightarrow> setattr E d n v = Inr d1 \<longrightarrow>
            hasattr E d1 = hasattr E d \<and> \<not> attr_ne E d1 n v \<and>
            (\<forall>m u. m \<noteq> n \<longrightarrow> attr_ne E d1 m u = attr_ne E d m u)"
  shows "(\<forall>r s' w'. VPCS_update E request s w = (Response r, s', w') \<longrightarrow>
            r = JObj (changed_fields E d request1) \<and> w' = w1 \<and>
            (\<exists>d1. s' = store k d1 s \<and>
                  (\<forall>(n, v) \<in> set (changed_fields E d request1). \<not> attr_ne E d1 n v) \<and>
                  (\<forall>m u. m \<notin> fst ` set (changed_fields E d request1) \<longrightarrow>
                         attr_ne E d1 m u = attr_ne E d m u))) \<and>
         ((\<forall>r. fst (VPCS_update E request s w) \<noteq> Response r) \<longrightarrow>
            (\<exists>(n, v) \<in> set request1. \<exists>d0 e. hasattr E d0 n \<and> attr_ne E d0 n v \<and>
                setattr E d0 n v = Inl e \<and> fst (VPCS_update E request s w) = caught e))"
proof -
  obtain res dfin where u: "update_settings E d request1 [] = (res, dfin)"
    by (cases "update_settings E d request1 []")
  have upd: "VPCS_update E request s w =
      (case res of Inl e \<Rightarrow> (caught e, store k dfin s, w1)
       | Inr response \<Rightarrow> (Response (JObj response), store k dfin s, w1))"
    using valid id inst pushed u by (simp add: VPCS_update_def on_instance_def split: sum.splits)
  have dist: "distinct (map fst request1)"
    using pushed keys by (rule push_startup_config_distinct)
  show ?thesis
  proof (cases res)
    case (Inl e)
    from update_settings_error[OF u[unfolded Inl]]
    have "\<exists>(n, v) \<in> set request1. \<exists>d0. hasattr E d0 n \<and> attr_ne E d0 n v \<and> setattr E d0 n v = Inl e" .
    then show ?thesis unfolding upd Inl by (auto simp: caught_not_Response)
  next
    case (Inr response)
    have "response = [] @ changed_fields E d request1 \<and>
         hasattr E dfin = hasattr E d \<and>
         (\<forall>(n, v) \<in> set (changed_fields E d request1). \<not> attr_ne E dfin n v) \<and>
         (\<forall>m u. m \<notin> fst ` set (changed_fields E d request1) \<longrightarrow> attr_ne E dfin m u = attr_ne E d m u)"
      by (rule update_settings_changed[OF _ dist _ u[unfolded Inr]]) (use frame in auto)
    then show ?thesis unfolding upd Inr by auto
  qed
qed

lemma sim_frame:
  "\<forall>d n v d1. hasattr sim d n \<longrightarrow> setattr sim d n v = Inr d1 \<longrightarrow>
            hasattr sim d1 = hasattr sim d \<and> \<not> attr_ne sim d1 n v \<and>
            (\<forall>m u. m \<noteq> n \<longrightarrow> attr_ne sim d1 m u = attr_ne sim d m u)"
  by (auto simp: sim_def contains_def update_conv' fun_eq_iff)

lemma rename_run:
  "VPCS_update sim rename_request (small\<lparr>VPCS_instances := [(1, PC1)]\<rparr>) sim_world0
   = (Response (JObj [(''name'', JStr ''PC2'')]),
      small\<lparr>VPCS_instances := [(1, PC1\<lparr>sd_attrs := AList.update ''name'' (JStr ''PC2'') (sd_attrs PC1)\<rparr>)]\<rparr>,
      sim_world0)"
  by (simp add: VPCS_update_def on_instance_def get_VPCS_instance_def push_startup_config_def
       store_def rename_request_def sim_def sim_world0_def small_def init_def PC1_def tap_request_def caps_net_raw_def
      getitem_def contains_def py_str_def)

theorem VPCS_update_changed_fields_witness:
  "VPCS_update sim rename_request (small\<lparr>VPCS_instances := [(1, PC1)]\<rparr>) sim_world0
   = (Response (JObj [(''name'', JStr ''PC2'')]),
      small\<lparr>VPCS_instances := [(1, PC1\<lparr>sd_attrs := AList.update ''name'' (JStr ''PC2'') (sd_attrs PC1)\<rparr>)]\<rparr>,
      sim_world0) \<and>
   changed_fields sim PC1 rename_request = [(''name'', JStr ''PC2'')]"
proof -
  have 1: "validate_request sim rename_request VPCS_UPDATE_SCHEMA" by (simp add: sim_def)
  have 2: "getitem rename_request ''id'' = Inr (JInt 1)" by (simp add: rename_request_def getitem_def)
  have 3: "get_VPCS_instance (small\<lparr>VPCS_instances := [(1, PC1)]\<rparr>) (JInt 1) = Inr (1, PC1)"
    by (simp add: get_VPCS_instance_def)
  have 4: "push_startup_config sim rename_request PC1 sim_world0 = (Inr rename_request, sim_world0)"
    by (simp add: push_startup_config_def rename_request_def)
  have 5: "distinct (map fst rename_request)" by (simp add: rename_request_def)
  from VPCS_update_changed_fields[OF 1 2 3 4 5 sim_frame] rename_run
  show ?thesis by simp
qed

subsection \<open>The port pools\<close>

lemma find_unused_port_Inr:
  "find_unused_port E w a b h st = Inr p \<Longrightarrow> a \<le> p \<and> p \<le> b \<and> \<not> port_in_use E w st h p"
proof -
  assume r: "find_unused_port E w a b h st = Inr p"
  then obtain rest where "filter (\<lambda>p. \<not> port_in_use E w st h p) [a..b] = p # rest"
    by (auto simp: find_unused_port_def split: list.splits)
  then have "p \<in> set (filter (\<lambda>p. \<not> port_in_use E w st h p) [a..b])" by simp
  then show ?thesis by auto
qed

lemma find_unused_port_first:
  "a \<le> b \<Longrightarrow> \<not> port_in_use E w st h a \<Longrightarrow> find_unused_port E w a b h st = Inr a"
  by (subst find_unused_port_def, subst upto_rec1) auto

lemma console_port_Inr:
  assumes "console_port E d s w = (Inr (p, d1), s1)"
  shows "console_scan_start s \<le> p \<and> p \<le> console_end_port_range s \<and>
         \<not> port_in_use E w TCP (host s) p \<and>
         s1 = s\<lparr>current_console_port := console_scan_start s + 1\<rparr>"
proof -
  let ?s1 = "if current_console_port s > console_end_port_range s
             then s\<lparr>current_console_port := console_start_port_range s\<rparr> else s"
  from assms have f: "find_unused_port E w (current_console_port ?s1) (console_end_port_range ?s1) (host ?s1) TCP = Inr p"
    and s1: "s1 = ?s1\<lparr>current_console_port := current_console_port ?s1 + 1\<rparr>"
    by (auto simp: console_port_def Let_def split: sum.splits if_splits)
  from find_unused_port_Inr[OF f] s1 show ?thesis
    by (auto simp: console_scan_start_def split: if_splits)
qed

lemma console_port_free:
  assumes "console_port E d s w = (Inr (p, d1), s1)"
    and "\<not> port_in_use E w TCP (host s) (console_scan_start s)"
  shows "p = console_scan_start s"
proof -
  let ?s1 = "if current_console_port s > console_end_port_range s
             then s\<lparr>current_console_port := console_start_port_range s\<rparr> else s"
  from assms have f: "find_unused_port E w (current_console_port ?s1) (console_end_port_range ?s1) (host ?s1) TCP = Inr p"
    by (auto simp: console_port_def Let_def split: sum.splits if_splits)
  have c: "current_console_port ?s1 = console_scan_start s" "console_end_port_range ?s1 = console_end_port_range s"
    "host ?s1 = host s"
    by (auto simp: console_scan_start_def)
  from find_unused_port_Inr[OF f] have "console_scan_start s \<le> console_end_port_range s"
    unfolding c by simp
  from find_unused_port_first[OF this assms(2)] f show ?thesis unfolding c by simp
qed

lemma console_ports_in_range:
  "console_start_port_range s \<le> current_console_port s \<Longrightarrow>
   console_ports E wds s = Inr (ports, s') \<Longrightarrow>
   \<forall>p\<in>set ports. console_start_port_range s \<le> p \<and> p \<le> console_end_port_range s"
proof (induction wds arbitrary: s ports)
  case Nil
  then show ?case by simp
next
  case (Cons wd rest)
  obtain w d where wd: "wd = (w, d)" by (cases wd)
  from Cons.prems(2) wd obtain p d1 s1 ps where
    cp: "console_port E d s w = (Inr (p, d1), s1)" and
    rest: "console_ports E rest s1 = Inr (ps, s')" and ports: "ports = p # ps"
    by (auto split: prod.splits sum.splits)
  from console_port_Inr[OF cp] have p: "console_scan_start s \<le> p" "p \<le> console_end_port_range s"
    and s1: "s1 = s\<lparr>current_console_port := console_scan_start s + 1\<rparr>" by auto
  have st: "console_start_port_range s \<le> console_scan_start s"
    using Cons.prems(1) by (simp add: console_scan_start_def)
  have "console_start_port_range s1 \<le> current_console_port s1" using st s1 by simp
  from Cons.IH[OF this rest] have "\<forall>p\<in>set ps. console_start_port_range s \<le> p \<and> p \<le> console_end_port_range s"
    using s1 by simp
  with p st ports show ?case by auto
qed

lemma console_ports_consecutive:
  "current_console_port s + int (length wds) - 1 \<le> console_end_port_range s \<Longrightarrow>
   \<forall>(w, d)\<in>set wds. \<forall>p. current_console_port s \<le> p \<and> p \<le> console_end_port_range s \<longrightarrow>
       \<not> port_in_use E w TCP (host s) p \<Longrightarrow>
   console_ports E wds s = Inr (ports, s') \<Longrightarrow>
   ports = [current_console_port s .. current_console_port s + int (length wds) - 1]"
proof (induction wds arbitrary: s ports)
  case Nil
  then show ?case by simp
next
  case (Cons wd rest)
  obtain w d where wd: "wd = (w, d)" by (cases wd)
  from Cons.prems(3) wd obtain p d1 s1 ps where
    cp: "console_port E d s w = (Inr (p, d1), s1)" and
    rest: "console_ports E rest s1 = Inr (ps, s')" and ports: "ports = p # ps"
    by (auto split: prod.splits sum.splits)
  have le: "current_console_port s \<le> console_end_port_range s" using Cons.prems(1) by simp
  then have start: "console_scan_start s = current_console_port s"
    by (simp add: console_scan_start_def)
  have free: "\<not> port_in_use E w TCP (host s) (console_scan_start s)"
    using Cons.prems(2) wd le start by auto
  from console_port_free[OF cp free] have p: "p = current_console_port s" using start by simp
  from console_port_Inr[OF cp] have s1: "s1 = s\<lparr>current_console_port := current_console_port s + 1\<rparr>"
    using start by simp
  have a: "current_console_port s1 + int (length rest) - 1 \<le> console_end_port_range s1"
    using Cons.prems(1) s1 by simp
  have b: "\<forall>(w, d)\<in>set rest. \<forall>p. current_console_port s1 \<le> p \<and> p \<le> console_end_port_range s1 \<longrightarrow>
       \<not> port_in_use E w TCP (host s1) p"
    using Cons.prems(2) s1 by auto
  from Cons.IH[OF a b rest] have "ps = [current_console_port s + 1 .. current_console_port s + int (length rest)]"
    using s1 by (simp add: algebra_simps)
  with p ports show ?case
    by (subst upto_rec1) (auto simp: algebra_simps)
qed

lemma udp_port_Inr:
  assumes "udp_port E s w = (Inr p, s1)"
  shows "udp_scan_start s \<le> p \<and> p \<le> udp_end_port_range s \<and>
         \<not> port_in_use E w UDP (host s) p \<and>
         s1 = s\<lparr>current_udp_port := udp_scan_start s + 1\<rparr>"
proof -
  let ?s1 = "if current_udp_port s \<ge> udp_end_port_range s
             then s\<lparr>current_udp_port := udp_start_port_range s\<rparr> else s"
  from assms have f: "find_unused_port E w (current_udp_port ?s1) (udp_end_port_range ?s1) (host ?s1) UDP = Inr p"
    and s1: "s1 = ?s1\<lparr>current_udp_port := current_udp_port ?s1 + 1\<rparr>"
    by (auto simp: udp_port_def Let_def split: sum.splits if_splits)
  from find_unused_port_Inr[OF f] s1 show ?thesis
    by (auto simp: udp_scan_start_def split: if_splits)
qed

lemma udp_port_free:
  assumes "udp_port E s w = (Inr p, s1)"
    and "\<not> port_in_use E w UDP (host s) (udp_scan_start s)"
  shows "p = udp_scan_start s"
proof -
  let ?s1 = "if current_udp_port s \<ge> udp_end_port_range s
             then s\<lparr>current_udp_port := udp_start_port_range s\<rparr> else s"
  from assms have f: "find_unused_port E w (current_udp_port ?s1) (udp_end_port_range ?s1) (host ?s1) UDP = Inr p"
    by (auto simp: udp_port_def Let_def split: sum.splits if_splits)
  have c: "current_udp_port ?s1 = udp_scan_start s" "udp_end_port_range ?s1 = udp_end_port_range s"
    "host ?s1 = host s"
    by (auto simp: udp_scan_start_def)
  from find_unused_port_Inr[OF f] have "udp_scan_start s \<le> udp_end_port_range s"
    unfolding c by simp
  from find_unused_port_first[OF this assms(2)] f show ?thesis unfolding c by simp
qed

lemma udp_ports_in_range:
  "udp_start_port_range s \<le> current_udp_port s \<Longrightarrow>
   udp_ports E ws s = Inr (ports, s') \<Longrightarrow>
   \<forall>p\<in>set ports. udp_start_port_range s \<le> p \<and> p \<le> udp_end_port_range s"
proof (induction ws arbitrary: s ports)
  case Nil
  then show ?case by simp
next
  case (Cons w rest)
  from Cons.prems(2) obtain p s1 ps where
    cp: "udp_port E s w = (Inr p, s1)" and
    rest: "udp_ports E rest s1 = Inr (ps, s')" and ports: "ports = p # ps"
    by (auto split: prod.splits sum.splits)
  from udp_port_Inr[OF cp] have p: "udp_scan_start s \<le> p" "p \<le> udp_end_port_range s"
    and s1: "s1 = s\<lparr>current_udp_port := udp_scan_start s + 1\<rparr>" by auto
  have st: "udp_start_port_range s \<le> udp_scan_start s"
    using Cons.prems(1) by (simp add: udp_scan_start_def)
  have "udp_start_port_range s1 \<le> current_udp_port s1" using st s1 by simp
  from Cons.IH[OF this rest] have "\<forall>p\<in>set ps. udp_start_port_range s \<le> p \<and> p \<le> udp_end_port_range s"
    using s1 by simp
  with p st ports show ?case by auto
qed

lemma udp_ports_consecutive:
  "current_udp_port s + int (length ws) \<le> udp_end_port_range s \<Longrightarrow>
   \<forall>w\<in>set ws. \<forall>p. current_udp_port s \<le> p \<and> p \<le> udp_end_port_range s \<longrightarrow>
       \<not> port_in_use E w UDP (host s) p \<Longrightarrow>
   udp_ports E ws s = Inr (ports, s') \<Longrightarrow>
   ports = [current_udp_port s .. current_udp_port s + int (length ws) - 1]"
proof (induction ws arbitrary: s ports)
  case Nil
  then show ?case by simp
next
  case (Cons w rest)
  from Cons.prems(3) obtain p s1 ps where
    cp: "udp_port E s w = (Inr p, s1)" and
    rest: "udp_ports E rest s1 = Inr (ps, s')" and ports: "ports = p # ps"
    by (auto split: prod.splits sum.splits)
  have le: "current_udp_port s < udp_end_port_range s" using Cons.prems(1) by simp
  then have start: "udp_scan_start s = current_udp_port s"
    by (simp add: udp_scan_start_def)
  have free: "\<not> port_in_use E w UDP (host s) (udp_scan_start s)"
    using Cons.prems(2) le start by auto
  from udp_port_free[OF cp free] have p: "p = current_udp_port s" using start by simp
  from udp_port_Inr[OF cp] have s1: "s1 = s\<lparr>current_udp_port := current_udp_port s + 1\<rparr>"
    using start by simp
  have a: "current_udp_port s1 + int (length rest) \<le> udp_end_port_range s1"
    using Cons.prems(1) s1 by simp
  have b: "\<forall>w\<in>set rest. \<forall>p. current_udp_port s1 \<le> p \<and> p \<le> udp_end_port_range s1 \<longrightarrow>
       \<not> port_in_use E w UDP (host s1) p"
    using Cons.prems(2) s1 by auto
  from Cons.IH[OF a b rest] have "ps = [current_udp_port s + 1 .. current_udp_port s + int (length rest)]"
    using s1 by (simp add: algebra_simps)
  with p ports show ?case
    by (subst upto_rec1) (auto simp: algebra_simps)
qed

lemma console_four:
  "console_ports sim [(sim_world0, PC_new), (sim_world0, PC_new), (sim_world0, PC_new), (sim_world0, PC_new)] small
   = Inr ([4001, 4002, 4003, 4001], small\<lparr>current_console_port := 4002\<rparr>)"
  by (simp add: console_port_def udp_port_def find_unused_port_def sim_def sim_world0_def
      small_def init_def PC_new_def Let_def)

lemma console_three:
  "console_ports sim [(sim_world0, PC_new), (sim_world0, PC_new), (sim_world0, PC_new)] small
   = Inr ([4001, 4002, 4003], small\<lparr>current_console_port := 4004\<rparr>)"
  by (simp add: console_port_def udp_port_def find_unused_port_def sim_def sim_world0_def
      small_def init_def PC_new_def Let_def)

lemma udp_two:
  "udp_ports sim [sim_world0, sim_world0] small = Inr ([30001, 30002], small\<lparr>current_udp_port := 30003\<rparr>)"
  by (simp add: console_port_def udp_port_def find_unused_port_def sim_def sim_world0_def
      small_def init_def PC_new_def Let_def)

lemma four_creates:
  "map (\<lambda>(k, d). (k, sim_attr d ''console''))
     (VPCS_instances (fst (snd (creates sim [create_request, create_request, create_request, create_request]
                                   small sim_world0))))
   = [(1, JInt 4001), (2, JInt 4002), (3, JInt 4003), (4, JInt 4001)]"
  by (simp add: VPCS_create_def console_port_def find_unused_port_def getitem_def store_def dict_update_def
       create_request_def sim_VPCSDevice_def sim_attr_def sim_def sim_world0_def small_def init_def Let_def)

text \<open>
  C3, as stated, fails: with the console range 4001 to 4003, no port bound and nothing
  released, four allocations in a row return 4001, 4002, 4003 and 4001 again; after four
  \<open>VPCS.create\<close> requests the devices 1 and 4 are both registered with the console port 4001.
\<close>

theorem console_port_returned_twice:
  "map_sum id fst (console_ports sim [(sim_world0, PC_new), (sim_world0, PC_new), (sim_world0, PC_new),
                                       (sim_world0, PC_new)] small)
   = Inr [4001, 4002, 4003, 4001] \<and>
   \<not> distinct [4001, 4002, 4003, 4001 :: int] \<and>
   map (\<lambda>(k, d). (k, sim_attr d ''console''))
     (VPCS_instances (fst (snd (creates sim [create_request, create_request, create_request, create_request]
                                   small sim_world0))))
   = [(1, JInt 4001), (2, JInt 4002), (3, JInt 4003), (4, JInt 4001)]"
  unfolding console_four four_creates by simp

text \<open>
  C3, as the code has it.  Take \<open>N\<close> allocations in a row on one pool, all successful, from
  a state whose cursor is not below the start of the range.  Every port returned lies in the
  range of the pool.  If moreover no port of the range is bound at any of the allocations and
  the cursor does not reach the point where it is reset (console: cursor + N - 1 is at most
  the end; UDP: cursor + N is at most the end), the ports returned are the \<open>N\<close> consecutive
  ports from the cursor on, and so pairwise distinct.
\<close>

theorem ports_in_range_and_distinct_before_wrap:
  "(console_start_port_range s \<le> current_console_port s \<and> console_ports E wds s = Inr (ports, s') \<longrightarrow>
      (\<forall>p\<in>set ports. console_start_port_range s \<le> p \<and> p \<le> console_end_port_range s) \<and>
      ((\<forall>(w, d)\<in>set wds. \<forall>p. console_start_port_range s \<le> p \<and> p \<le> console_end_port_range s \<longrightarrow>
            \<not> port_in_use E w TCP (host s) p) \<and>
       current_console_port s + int (length wds) - 1 \<le> console_end_port_range s \<longrightarrow>
         ports = [current_console_port s .. current_console_port s + int (length wds) - 1] \<and>
         distinct ports)) \<and>
   (udp_start_port_range s \<le> current_udp_port s \<and> udp_ports E ws s = Inr (uports, s'') \<longrightarrow>
      (\<forall>p\<in>set uports. udp_start_port_range s \<le> p \<and> p \<le> udp_end_port_range s) \<and>
      ((\<forall>w\<in>set ws. \<forall>p. udp_start_port_range s \<le> p \<and> p \<le> udp_end_port_range s \<longrightarrow>
            \<not> port_in_use E w UDP (host s) p) \<and>
       current_udp_port s + int (length ws) \<le> udp_end_port_range s \<longrightarrow>
         uports = [current_udp_port s .. current_udp_port s + int (length ws) - 1] \<and>
         distinct uports))"
proof (intro conjI impI)
  assume a: "console_start_port_range s \<le> current_console_port s \<and> console_ports E wds s = Inr (ports, s')"
  then show "\<forall>p\<in>set ports. console_start_port_range s \<le> p \<and> p \<le> console_end_port_range s"
    using console_ports_in_range by blast
  assume b: "(\<forall>(w, d)\<in>set wds. \<forall>p. console_start_port_range s \<le> p \<and> p \<le> console_end_port_range s \<longrightarrow>
            \<not> port_in_use E w TCP (host s) p) \<and>
       current_console_port s + int (length wds) - 1 \<le> console_end_port_range s"
  have "\<forall>(w, d)\<in>set wds. \<forall>p. current_console_port s \<le> p \<and> p \<le> console_end_port_range s \<longrightarrow>
       \<not> port_in_use E w TCP (host s) p"
    using a b by fastforce
  with a b show c: "ports = [current_console_port s .. current_console_port s + int (length wds) - 1]"
    using console_ports_consecutive by blast
  show "distinct ports" unfolding c by simp
next
  assume a: "udp_start_port_range s \<le> current_udp_port s \<and> udp_ports E ws s = Inr (uports, s'')"
  then show "\<forall>p\<in>set uports. udp_start_port_range s \<le> p \<and> p \<le> udp_end_port_range s"
    using udp_ports_in_range by blast
  assume b: "(\<forall>w\<in>set ws. \<forall>p. udp_start_port_range s \<le> p \<and> p \<le> udp_end_port_range s \<longrightarrow>
            \<not> port_in_use E w UDP (host s) p) \<and>
       current_udp_port s + int (length ws) \<le> udp_end_port_range s"
  have "\<forall>w\<in>set ws. \<forall>p. current_udp_port s \<le> p \<and> p \<le> udp_end_port_range s \<longrightarrow>
       \<not> port_in_use E w UDP (host s) p"
    using a b by fastforce
  with a b show c: "uports = [current_udp_port s .. current_udp_port s + int (length ws) - 1]"
    using udp_ports_consecutive by blast
  show "distinct uports" unfolding c by simp
qed

theorem ports_in_range_and_distinct_before_wrap_witness:
  "console_ports sim [(sim_world0, PC_new), (sim_world0, PC_new), (sim_world0, PC_new)] small
     = Inr ([4001, 4002, 4003], small\<lparr>current_console_port := 4004\<rparr>) \<and>
   distinct [4001, 4002, 4003 :: int] \<and>
   udp_ports sim [sim_world0, sim_world0] small = Inr ([30001, 30002], small\<lparr>current_udp_port := 30003\<rparr>) \<and>
   distinct [30001, 30002 :: int]"
  using ports_in_range_and_distinct_before_wrap
    [where s = small and E = sim
       and wds = "[(sim_world0, PC_new), (sim_world0, PC_new), (sim_world0, PC_new)]"
       and ports = "[4001, 4002, 4003]" and s' = "small\<lparr>current_console_port := 4004\<rparr>"
       and ws = "[sim_world0, sim_world0]" and uports = "[30001, 30002]"
       and s'' = "small\<lparr>current_udp_port := 30003\<rparr>"]
    console_three udp_two
  by simp

lemma udp_three:
  "udp_ports sim [sim_world0, sim_world0, sim_world0] small
   = Inr ([30001, 30002, 30001], small\<lparr>current_udp_port := 30002\<rparr>)"
  by (simp add: console_port_def udp_port_def find_unused_port_def sim_def sim_world0_def
      small_def init_def PC_new_def Let_def)

text \<open>
  C4 does not hold of the following allocations.  With the UDP range 30001 to 30003, the second
  allocation leaves the cursor at the end of the range (30003), which it has not exceeded;
  the third resets it to the start before the scan and returns 30001 again, so that no scan
  ever starts at 30003.  The console cursor stands at 4001, which is bound: the port returned is 4002 and
  the cursor becomes 4002, not a port past the one returned, so that the next allocation
  returns 4002 again.
\<close>

theorem cursor_reset_at_end_and_not_past_port:
  "udp_ports sim [sim_world0, sim_world0] small
     = Inr ([30001, 30002], small\<lparr>current_udp_port := 30003\<rparr>) \<and>
   udp_port sim (small\<lparr>current_udp_port := 30003\<rparr>) sim_world0
     = (Inr 30001, small\<lparr>current_udp_port := 30002\<rparr>) \<and>
   udp_ports sim [sim_world0, sim_world0, sim_world0] small
     = Inr ([30001, 30002, 30001], small\<lparr>current_udp_port := 30002\<rparr>) \<and>
   console_port sim PC_new small (sim_world0\<lparr>sw_bound := [4001]\<rparr>)
     = (Inr (4002, PC_new\<lparr>sd_attrs := [(''name'', JStr ''PC2''), (''console'', JInt 4002)]\<rparr>),
        small\<lparr>current_console_port := 4002\<rparr>) \<and>
   console_port sim PC_new (small\<lparr>current_console_port := 4002\<rparr>) (sim_world0\<lparr>sw_bound := [4001]\<rparr>)
     = (Inr (4002, PC_new\<lparr>sd_attrs := [(''name'', JStr ''PC2''), (''console'', JInt 4002)]\<rparr>),
        small\<lparr>current_console_port := 4003\<rparr>)"
  unfolding udp_two udp_three by (simp add: console_port_def udp_port_def find_unused_port_def sim_def sim_world0_def
      small_def init_def PC_new_def Let_def)

theorem cursor_reset_at_end_and_not_past_port_witness:
  "fst (udp_port sim (small\<lparr>current_udp_port := 30003\<rparr>) sim_world0) = Inr 30001 \<and>
   current_console_port (snd (console_port sim PC_new small (sim_world0\<lparr>sw_bound := [4001]\<rparr>))) = 4002"
  using cursor_reset_at_end_and_not_past_port by simp

subsection \<open>Errors before a change\<close>

lemma on_instance_unknown:
  assumes "getitem request ''id'' = Inr VPCS_id" and "instance_key VPCS_id = Inr key"
    and "\<forall>j. key = Some j \<longrightarrow> map_of (VPCS_instances s) j = None"
  shows "on_instance E sch request s w body =
         (if validate_request E request sch then CustomError (unknown_id VPCS_id) else Invalid, s, w)"
  using assms by (cases key) (auto simp: on_instance_def get_VPCS_instance_def unknown_id_def)

lemma create_fails:
  assumes "validate_request E request VPCS_CREATE_SCHEMA" and "getitem request ''path'' = Inr path"
    and "makedirs E w (working_dir s) = (made, w1)" and "\<forall>m. made \<noteq> MakedirsOSError m"
    and "VPCSDevice E w1 path (working_dir s) (host s) (case map_of request ''name'' of None \<Rightarrow> JNull | Some v \<Rightarrow> v) = (Inr d, w2)"
    and "find_unused_port E w2 (console_scan_start s) (console_end_port_range s) (host s) TCP = Inl e"
  shows "VPCS_create E request s w =
         (CustomError (str_exn e), s\<lparr>current_console_port := console_scan_start s\<rparr>, w2)"
proof -
  have cp: "console_port E d s w2 = (Inl (VPCSError (str_exn e)), s\<lparr>current_console_port := console_scan_start s\<rparr>)"
    using assms(6) by (auto simp: console_port_def console_scan_start_def Let_def)
  show ?thesis
    using assms(1-5) cp
    by (cases made) (simp_all add: VPCS_create_def Let_def caught_def)
qed

lemma create_on_busy_world:
  "VPCS_create sim create_request small busy_world
   = (CustomError ''Could not find an unused port between 4001 and 4003'', small,
      busy_world\<lparr>sw_dirs := [''/projects''], sw_next_id := 2\<rparr>)"
  by (simp add: VPCS_create_def console_port_def find_unused_port_def caught_def getitem_def
       create_request_def busy_world_def sim_VPCSDevice_def sim_def sim_world0_def small_def init_def
       Let_def str_int_def str_nat.simps digit_char_def unknown_id_def py_str_def)

text \<open>
  C7, as stated, fails: \<open>VPCS.create\<close> finds every console port bound and sends the error,
  and the working directory, which did not exist before the request, exists after it.
\<close>

theorem failed_create_leaves_working_dir:
  "fst (VPCS_create sim create_request small busy_world)
     = CustomError ''Could not find an unused port between 4001 and 4003'' \<and>
   \<not> isdir sim busy_world ''/projects'' \<and>
   isdir sim (snd (snd (VPCS_create sim create_request small busy_world))) ''/projects''"
  unfolding create_on_busy_world by (simp add: sim_def busy_world_def sim_world0_def)

text \<open>
  C7, as the code has it.  When \<open>VPCS.create\<close> finds no console port, it sends the error of
  the search and leaves the module as it was but for the console cursor, which is the start
  of the range if it had exceeded the end and is not incremented; the world is as the
  creation of the working directory and the construction of the device left it.  When a
  request names an identifier under which no instance is stored, each of \<open>VPCS.delete\<close>,
  \<open>update\<close>, \<open>start\<close>, \<open>stop\<close>, \<open>reload\<close>, \<open>allocate_udp_port\<close>, \<open>add_nio\<close> and
  \<open>delete_nio\<close> sends the error "VPCS device ID ... doesn't exist" (after validation) and
  leaves the module and the world unchanged.
\<close>

theorem failed_create_and_unknown_id:
  "(validate_request E request VPCS_CREATE_SCHEMA \<and> getitem request ''path'' = Inr path \<and>
    makedirs E w (working_dir s) = (made, w1) \<and> (\<forall>m. made \<noteq> MakedirsOSError m) \<and>
    VPCSDevice E w1 path (working_dir s) (host s) (case map_of request ''name'' of None \<Rightarrow> JNull | Some v \<Rightarrow> v) = (Inr d, w2) \<and>
    find_unused_port E w2 (console_scan_start s) (console_end_port_range s) (host s) TCP = Inl e \<longrightarrow>
      VPCS_create E request s w =
        (CustomError (str_exn e), s\<lparr>current_console_port := console_scan_start s\<rparr>, w2)) \<and>
   (getitem request ''id'' = Inr VPCS_id \<and> instance_key VPCS_id = Inr key \<and>
    (\<forall>j. key = Some j \<longrightarrow> map_of (VPCS_instances s) j = None) \<longrightarrow>
      VPCS_delete E request s w =
        (if validate_request E request VPCS_DELETE_SCHEMA then CustomError (unknown_id VPCS_id) else Invalid, s, w) \<and>
      VPCS_update E request s w =
        (if validate_request E request VPCS_UPDATE_SCHEMA then CustomError (unknown_id VPCS_id) else Invalid, s, w) \<and>
      vm_start E request s w =
        (if validate_request E request VPCS_START_SCHEMA then CustomError (unknown_id VPCS_id) else Invalid, s, w) \<and>
      vm_stop E request s w =
        (if validate_request E request VPCS_STOP_SCHEMA then CustomError (unknown_id VPCS_id) else Invalid, s, w) \<and>
      vm_reload E request s w =
        (if validate_request E request VPCS_RELOAD_SCHEMA then CustomError (unknown_id VPCS_id) else Invalid, s, w) \<and>
      allocate_udp_port E request s w =
        (if validate_request E request VPCS_ALLOCATE_UDP_PORT_SCHEMA then CustomError (unknown_id VPCS_id)
         else Invalid, s, w) \<and>
      add_nio E request s w =
        (if validate_request E request VPCS_ADD_NIO_SCHEMA then CustomError (unknown_id VPCS_id) else Invalid, s, w) \<and>
      delete_nio E request s w =
        (if validate_request E request VPCS_DELETE_NIO_SCHEMA then CustomError (unknown_id VPCS_id)
         else Invalid, s, w))"
proof (intro conjI impI; (elim conjE)?)
  assume "validate_request E request VPCS_CREATE_SCHEMA" "getitem request ''path'' = Inr path"
    "makedirs E w (working_dir s) = (made, w1)" "\<forall>m. made \<noteq> MakedirsOSError m"
    "VPCSDevice E w1 path (working_dir s) (host s) (case map_of request ''name'' of None \<Rightarrow> JNull | Some v \<Rightarrow> v) = (Inr d, w2)"
    "find_unused_port E w2 (console_scan_start s) (console_end_port_range s) (host s) TCP = Inl e"
  then show "VPCS_create E request s w =
        (CustomError (str_exn e), s\<lparr>current_console_port := console_scan_start s\<rparr>, w2)"
    by (rule create_fails)
qed (simp_all only: VPCS_delete_def VPCS_update_def vm_start_def vm_stop_def vm_reload_def
       allocate_udp_port_def add_nio_def delete_nio_def on_instance_unknown)

theorem failed_create_and_unknown_id_witness:
  "VPCS_create sim create_request small busy_world
     = (CustomError ''Could not find an unused port between 4001 and 4003'', small,
        busy_world\<lparr>sw_dirs := [''/projects''], sw_next_id := 2\<rparr>) \<and>
   VPCS_delete sim tap_request small sim_world0 = (CustomError ''VPCS device ID 1 doesn't exist'', small, sim_world0) \<and>
   VPCS_update sim tap_request small sim_world0 = (CustomError ''VPCS device ID 1 doesn't exist'', small, sim_world0) \<and>
   vm_start sim tap_request small sim_world0 = (CustomError ''VPCS device ID 1 doesn't exist'', small, sim_world0) \<and>
   vm_stop sim tap_request small sim_world0 = (CustomError ''VPCS device ID 1 doesn't exist'', small, sim_world0) \<and>
   vm_reload sim tap_request small sim_world0 = (CustomError ''VPCS device ID 1 doesn't exist'', small, sim_world0) \<and>
   allocate_udp_port sim tap_request small sim_world0
     = (CustomError ''VPCS device ID 1 doesn't exist'', small, sim_world0) \<and>
   add_nio sim tap_request small sim_world0 = (CustomError ''VPCS device ID 1 doesn't exist'', small, sim_world0) \<and>
   delete_nio sim tap_request small sim_world0 = (CustomError ''VPCS device ID 1 doesn't exist'', small, sim_world0)"
proof -
  have a: "validate_request sim create_request VPCS_CREATE_SCHEMA \<and>
      getitem create_request ''path'' = Inr (JStr ''/usr/bin/vpcs'') \<and>
      makedirs sim busy_world (working_dir small) = (Created, busy_world\<lparr>sw_dirs := [''/projects'']\<rparr>) \<and>
      (\<forall>m. Created \<noteq> MakedirsOSError m) \<and>
      VPCSDevice sim (busy_world\<lparr>sw_dirs := [''/projects'']\<rparr>) (JStr ''/usr/bin/vpcs'') (working_dir small)
          (host small) (case map_of create_request ''name'' of None \<Rightarrow> JNull | Some v \<Rightarrow> v)
        = (Inr \<lparr>sd_id = 1, sd_attrs = [(''name'', JStr ''VPCS''), (''path'', JStr ''/usr/bin/vpcs''),
                                       (''working_dir'', JStr ''/projects''), (''console'', JNull)]\<rparr>,
           busy_world\<lparr>sw_dirs := [''/projects''], sw_next_id := 2\<rparr>) \<and>
      find_unused_port sim (busy_world\<lparr>sw_dirs := [''/projects''], sw_next_id := 2\<rparr>)
          (console_scan_start small) (console_end_port_range small) (host small) TCP
        = Inl (Exception ''Could not find an unused port between 4001 and 4003'')"
    by (simp add: find_unused_port_def getitem_def console_scan_start_def
         create_request_def busy_world_def sim_VPCSDevice_def sim_def sim_world0_def small_def init_def
         str_int_def str_nat.simps digit_char_def unknown_id_def py_str_def)
  have b: "getitem tap_request ''id'' = Inr (JInt 1) \<and> instance_key (JInt 1) = Inr (Some 1) \<and>
      (\<forall>j. Some (1::int) = Some j \<longrightarrow> map_of (VPCS_instances small) j = None)"
    by (simp add: tap_request_def getitem_def small_def init_def)
  have c: "small\<lparr>current_console_port := console_scan_start small\<rparr> = small"
    by (simp add: console_scan_start_def small_def init_def)
  have v: "validate_request sim r sch" for r sch by (simp add: sim_def)
  from failed_create_and_unknown_id
    [where E = sim and request = create_request and s = small and w = busy_world
       and path = "JStr ''/usr/bin/vpcs''" and made = Created
       and ?w1.0 = "busy_world\<lparr>sw_dirs := [''/projects'']\<rparr>"
       and d = "\<lparr>sd_id = 1, sd_attrs = [(''name'', JStr ''VPCS''), (''path'', JStr ''/usr/bin/vpcs''),
                                       (''working_dir'', JStr ''/projects''), (''console'', JNull)]\<rparr>"
       and ?w2.0 = "busy_world\<lparr>sw_dirs := [''/projects''], sw_next_id := 2\<rparr>"
       and e = "Exception ''Could not find an unused port between 4001 and 4003''"]
    a
  have 1: "VPCS_create sim create_request small busy_world
     = (CustomError ''Could not find an unused port between 4001 and 4003'', small,
        busy_world\<lparr>sw_dirs := [''/projects''], sw_next_id := 2\<rparr>)"
    unfolding c by simp
  from failed_create_and_unknown_id
    [where E = sim and request = tap_request and s = small and w = sim_world0
       and VPCS_id = "JInt 1" and key = "Some 1"]
    b
  have 2: "VPCS_delete sim tap_request small sim_world0 = (CustomError ''VPCS device ID 1 doesn't exist'', small, sim_world0) \<and>
   VPCS_update sim tap_request small sim_world0 = (CustomError ''VPCS device ID 1 doesn't exist'', small, sim_world0) \<and>
   vm_start sim tap_request small sim_world0 = (CustomError ''VPCS device ID 1 doesn't exist'', small, sim_world0) \<and>
   vm_stop sim tap_request small sim_world0 = (CustomError ''VPCS device ID 1 doesn't exist'', small, sim_world0) \<and>
   vm_reload sim tap_request small sim_world0 = (CustomError ''VPCS device ID 1 doesn't exist'', small, sim_world0) \<and>
   allocate_udp_port sim tap_request small sim_world0
     = (CustomError ''VPCS device ID 1 doesn't exist'', small, sim_world0) \<and>
   add_nio sim tap_request small sim_world0 = (CustomError ''VPCS device ID 1 doesn't exist'', small, sim_world0) \<and>
   delete_nio sim tap_request small sim_world0 = (CustomError ''VPCS device ID 1 doesn't exist'', small, sim_world0)"
    by (simp add: v str_int_def str_nat.simps digit_char_def unknown_id_def py_str_def)
  from 1 2 show ?thesis by blast
qed

end
